theory Spec2Isabelle
  imports Complex_Main "HOL-Library.Word" "HOL-Library.Sublist" "HOL-Library.AList"
begin

section \<open>Values shared by the functions of \<^verbatim>\<open>mvr.py\<close>\<close>

text \<open>
  Exceptions are values. Each constructor but the last is a Python exception class; where
  the source raises with a fixed message, the message is kept (an f-string is cut at its
  first placeholder), so that two raise sites of one class stay apart; an assertion
  without a message has the empty message.

  The last constructor is no exception. \<^verbatim>\<open>numpy\<close> holds integers in 64 bits, and where
  a number does not fit it goes on with other types (unsigned integers, \<^verbatim>\<open>float64\<close>,
  objects), which are not represented here: \<open>OutsideInt64\<close> marks that the source has
  left the 64-bit integers, and says nothing about what it does from there on.
\<close>

datatype error =
    AssertionError string
  | ValueError string
  | KeyError string
  | IndexError
  | TypeError
  | AttributeError
  | ZeroDivisionError
  | OutsideInt64

text \<open>
  A frame time is a \<^verbatim>\<open>numpy.float64\<close>. The functions below only move, drop and
  insert entries, so a finite time is a real number and \<^verbatim>\<open>nan\<close> is a value of its own.
\<close>

datatype ftime = NaN | Sec real

section \<open>Metadata records\<close>

text \<open>
  A camera's \<^verbatim>\<open>info.json\<close> is read with \<^verbatim>\<open>json.loads\<close>: the values below are what
  that call can return. A dictionary is the list of its items and a key is looked up with
  \<^const>\<open>map_of\<close>. Strings are lists of 8-bit characters (the files are ASCII);
  a JSON float is a real number.
\<close>

datatype json =
    JNull
  | JBool bool
  | JInt int
  | JFloat real
  | JStr string
  | JList "json list"
  | JObj "(string \<times> json) list"

text \<open>
  \<^verbatim>\<open>get_video_info_data\<close>, at a mapping (the branch that reads a file from a path is
  input and output, and is left to the caller): the value under \<^verbatim>\<open>RecordingReport\<close>
  when the key is there, the mapping itself otherwise.
\<close>

definition get_video_info_data :: "(string \<times> json) list \<Rightarrow> json" where
  "get_video_info_data path_or_info_data =
     (case map_of path_or_info_data ''RecordingReport'' of
        Some report \<Rightarrow> report
      | None \<Rightarrow> JObj path_or_info_data)"

text \<open>\<^verbatim>\<open>x == 0\<close> for the result \<^verbatim>\<open>x\<close> of a \<^verbatim>\<open>dict.get\<close> (\<^verbatim>\<open>None\<close> when the key is absent).
  In Python \<^verbatim>\<open>False == 0\<close> and \<^verbatim>\<open>0.0 == 0\<close> hold.\<close>

fun py_eq_zero :: "json option \<Rightarrow> bool" where
  "py_eq_zero (Some (JInt i)) = (i = 0)"
| "py_eq_zero (Some (JFloat r)) = (r = 0)"
| "py_eq_zero (Some (JBool b)) = (\<not> b)"
| "py_eq_zero _ = False"

section \<open>Strings: \<^verbatim>\<open>str.split\<close> and \<^verbatim>\<open>int\<close>\<close>

text \<open>\<^verbatim>\<open>s.split(sep)\<close> for a separator of one character: never empty, and an empty
  piece stands between two adjacent separators.\<close>

fun split_on :: "char \<Rightarrow> string \<Rightarrow> string list" where
  "split_on sep [] = [[]]"
| "split_on sep (c # cs) =
     (if c = sep then [] # split_on sep cs
      else (case split_on sep cs of
              piece # pieces \<Rightarrow> (c # piece) # pieces
            | [] \<Rightarrow> [[c]]))"

text \<open>
  \<^verbatim>\<open>int(s)\<close> for a string, in base 10. A character is a code point below 256. The
  blanks around the literal are dropped: space, tab, line feed, vertical tab, form feed,
  carriage return, and the two blanks above 127, next line (\<open>0x85\<close>) and no-break space
  (\<open>0xA0\<close>). One sign may lead. The digits may be grouped by single underscores. The
  interpreter reads the leading run of digits and underscores first: when the run is well
  formed and holds more than 4300 digits it raises \<^verbatim>\<open>ValueError\<close> with a message of its
  own (the limit is the interpreter's default); anything else that is no literal raises
  \<^verbatim>\<open>ValueError\<close> with the message "invalid literal".
\<close>

definition is_space :: "char \<Rightarrow> bool" where
  "is_space c =
     (c \<in> set [CHR '' '', CHR 0x09, CHR 0x0A, CHR 0x0B, CHR 0x0C, CHR 0x0D, CHR 0x85, CHR 0xA0])"

definition strip :: "string \<Rightarrow> string" where
  "strip s = rev (dropWhile is_space (rev (dropWhile is_space s)))"

definition digit_val :: "char \<Rightarrow> nat option" where
  "digit_val c = map_of (zip ''0123456789'' [0 ..< 10]) c"

fun digits_value :: "bool \<Rightarrow> nat \<Rightarrow> string \<Rightarrow> nat option" where
  "digits_value after_digit acc [] = (if after_digit then Some acc else None)"
| "digits_value after_digit acc (c # cs) =
     (if c = CHR ''_'' then (if after_digit then digits_value False acc cs else None)
      else (case digit_val c of
              None \<Rightarrow> None
            | Some d \<Rightarrow> digits_value True (10 * acc + d) cs))"

definition invalid_literal :: error where
  "invalid_literal = ValueError ''invalid literal for int() with base 10''"

definition exceeds_limit :: error where
  "exceeds_limit = ValueError ''Exceeds the limit (4300 digits) for integer string conversion''"

definition int_literal :: "string \<Rightarrow> error + nat" where
  "int_literal body =
     (let run = takeWhile (\<lambda>c. c = CHR ''_'' \<or> digit_val c \<noteq> None) body
      in (case digits_value False 0 run of
            None \<Rightarrow> Inl invalid_literal
          | Some n \<Rightarrow>
              (if 4300 < length (filter (\<lambda>c. c \<noteq> CHR ''_'') run) then Inl exceeds_limit
               else if run \<noteq> body then Inl invalid_literal
               else Inr n)))"

definition py_int :: "string \<Rightarrow> error + int" where
  "py_int s =
     (case strip s of
        c # cs \<Rightarrow>
          (if c = CHR ''-'' then
             (case int_literal cs of Inl e \<Rightarrow> Inl e | Inr n \<Rightarrow> Inr (- int n))
           else if c = CHR ''+'' then
             (case int_literal cs of Inl e \<Rightarrow> Inl e | Inr n \<Rightarrow> Inr (int n))
           else
             (case int_literal (c # cs) of Inl e \<Rightarrow> Inl e | Inr n \<Rightarrow> Inr (int n)))
      | [] \<Rightarrow> Inl invalid_literal)"

section \<open>\<^verbatim>\<open>get_lost_frames_from_camera_info\<close>\<close>

text \<open>
  One pass of the loop over the spans: the indices the pass appends to \<^verbatim>\<open>lost_frames\<close>.
  A span with no hyphen is one number; otherwise the first two pieces bound
  \<^verbatim>\<open>np.arange(int(start), int(end) + 1)\<close> and further pieces are not looked at.

  \<^verbatim>\<open>int\<close> gives Python integers, which are unbounded; \<^verbatim>\<open>numpy\<close> holds integers in 64
  bits (its default integer on Linux and macOS). \<^verbatim>\<open>np.arange\<close> is given the two bounds of a range at once, so a range one of
  whose bounds does not fit ends the model with \<open>OutsideInt64\<close>. A single number stays a
  Python integer in the list until \<^verbatim>\<open>np.subtract\<close> at the end: the flag returned with
  the indices tells whether every number of the pass, and the number minus 1, fits, and the
  loop goes on, so that a later span can still raise. Memory is taken to be unbounded.
\<close>

definition fits_int64 :: "int \<Rightarrow> bool" where
  "fits_int64 x = (- (2 ^ 63) \<le> x \<and> x < 2 ^ 63)"

definition span_frames :: "string \<Rightarrow> error + bool \<times> int list" where
  "span_frames sp =
     (case split_on CHR ''-'' sp of
        [] \<Rightarrow> Inr (True, [])
      | [single] \<Rightarrow>
          (case py_int single of
             Inl e \<Rightarrow> Inl e
           | Inr a \<Rightarrow> Inr (fits_int64 a \<and> fits_int64 (a - 1), [a]))
      | first # second # _ \<Rightarrow>
          (case py_int first of
             Inl e \<Rightarrow> Inl e
           | Inr a \<Rightarrow>
               (case py_int second of
                  Inl e \<Rightarrow> Inl e
                | Inr b \<Rightarrow>
                    (if fits_int64 a \<and> fits_int64 (b + 1)
                     then Inr (b < a \<or> fits_int64 (a - 1), [a .. b])
                     else Inl OutsideInt64))))"

fun collect_lost_frames :: "bool \<Rightarrow> int list \<Rightarrow> string list \<Rightarrow> error + bool \<times> int list" where
  "collect_lost_frames fits lost_frames [] = Inr (fits, lost_frames)"
| "collect_lost_frames fits lost_frames (sp # spans) =
     (case span_frames sp of
        Inl e \<Rightarrow> Inl e
      | Inr (span_fits, frames) \<Rightarrow>
          collect_lost_frames (fits \<and> span_fits) (lost_frames @ frames) spans)"

text \<open>Lines 545 to 555, from the first element of \<^verbatim>\<open>LostFrames\<close> on: a value that is
  not a string has no \<^verbatim>\<open>split\<close>. The result is an array of integers when every number
  fitted.\<close>

definition lost_frames_of_first :: "json \<Rightarrow> error + int list" where
  "lost_frames_of_first first =
     (case first of
        JStr s \<Rightarrow>
          (case collect_lost_frames True [] (split_on CHR '','' s) of
             Inl e \<Rightarrow> Inl e
           | Inr (fits, lost_frames) \<Rightarrow>
               (if fits then Inr (map (\<lambda>frame. frame - 1) lost_frames)
                else Inl OutsideInt64))
      | _ \<Rightarrow> Inl AttributeError)"

definition get_lost_frames_from_camera_info :: "(string \<times> json) list \<Rightarrow> error + int list" where
  "get_lost_frames_from_camera_info info_path_or_data =
     (case get_video_info_data info_path_or_data of
        JObj info \<Rightarrow>
          (if py_eq_zero (map_of info ''FramesLostCount'') then Inr []
           else
             (case map_of info ''LostFrames'' of
                None \<Rightarrow> Inl (KeyError ''LostFrames'')
              | Some (JList lost_frames) \<Rightarrow>
                  (case lost_frames of
                     [] \<Rightarrow> Inl IndexError
                   | first # _ \<Rightarrow> lost_frames_of_first first)
              | Some _ \<Rightarrow> Inl (AssertionError [])))
      | _ \<Rightarrow> Inl AttributeError)"

text \<open>
  The notation of the metadata, to state what a span string means: a span is one
  1-indexed frame number or an inclusive range of them, written in decimal and joined by
  commas.
\<close>

datatype span = Single nat | Range nat nat

definition digit_char :: "nat \<Rightarrow> char" where
  "digit_char d = ''0123456789'' ! d"

fun decimal :: "nat \<Rightarrow> string" where
  "decimal n = (if n < 10 then [digit_char n] else decimal (n div 10) @ [digit_char (n mod 10)])"

declare decimal.simps [simp del]

fun span_text :: "span \<Rightarrow> string" where
  "span_text (Single a) = decimal a"
| "span_text (Range a b) = decimal a @ ''-'' @ decimal b"

fun spans_text :: "span list \<Rightarrow> string" where
  "spans_text [] = []"
| "spans_text [sp] = span_text sp"
| "spans_text (sp # sps) = span_text sp @ '','' @ spans_text sps"

fun span_indices :: "span \<Rightarrow> int list" where
  "span_indices (Single a) = [int a - 1]"
| "span_indices (Range a b) = [int a - 1 .. int b - 1]"

text \<open>The frame numbers of a span are below \<open>2\<^sup>6\<^sup>3 - 1\<close>, so that they and the end of
  the range fit 64 bits.\<close>

fun frame_numbers_fit :: "span \<Rightarrow> bool" where
  "frame_numbers_fit (Single a) = (int a < 2 ^ 63 - 1)"
| "frame_numbers_fit (Range a b) = (int a < 2 ^ 63 - 1 \<and> int b < 2 ^ 63 - 1)"

section \<open>Camera names\<close>

text \<open>\<^verbatim>\<open>str.lower\<close> on ASCII, and \<^verbatim>\<open>n in s\<close> for two strings.\<close>

definition lower_char :: "char \<Rightarrow> char" where
  "lower_char c =
     (case map_of (zip ''ABCDEFGHIJKLMNOPQRSTUVWXYZ'' ''abcdefghijklmnopqrstuvwxyz'') c of
        Some l \<Rightarrow> l
      | None \<Rightarrow> c)"

definition lower :: "string \<Rightarrow> string" where
  "lower s = map lower_char s"

fun is_substring :: "string \<Rightarrow> string \<Rightarrow> bool" where
  "is_substring n [] = (n = [])"
| "is_substring n (c # cs) = (prefix n (c # cs) \<or> is_substring n cs)"

definition names :: "(string \<times> string) list" where
  "names = [(''eye'', ''eye''), (''face'', ''face''), (''beh'', ''behavior'')]"

definition get_camera_name :: "string \<Rightarrow> error + string" where
  "get_camera_name path =
     (case find (\<lambda>n. is_substring n (lower path)) (map fst names) of
        None \<Rightarrow> Inl (ValueError ''Could not extract camera name from '')
      | Some n \<Rightarrow> (case map_of names n of Some name \<Rightarrow> Inr name | None \<Rightarrow> Inl (KeyError n)))"

definition get_camera_name_on_sync :: "string \<Rightarrow> error + string" where
  "get_camera_name_on_sync sync_line =
     (case get_camera_name sync_line of
        Inl e \<Rightarrow> Inl e
      | Inr name \<Rightarrow> Inr (if name = ''behavior'' then ''beh'' else name))"

section \<open>The sync file\<close>

text \<open>
  The reader of the sync file belongs to another package (\<^verbatim>\<open>npc_sync\<close>); what the
  functions here use of it are the labels of the lines and, for a line, the times of its
  rising and of its falling edges in seconds. Edge times are real numbers.
\<close>

record sync_dataset =
  line_labels :: "string list"
  get_rising_edges :: "string \<Rightarrow> real list"
  get_falling_edges :: "string \<Rightarrow> real list"

definition camera_names_on_sync :: "string list" where
  "camera_names_on_sync = [''beh'', ''face'', ''eye'']"

text \<open>A loop or comprehension that stops at the first exception.\<close>

fun traverse :: "('a \<Rightarrow> error + 'b) \<Rightarrow> 'a list \<Rightarrow> error + 'b list" where
  "traverse f [] = Inr []"
| "traverse f (x # xs) =
     (case f x of
        Inl e \<Rightarrow> Inl e
      | Inr y \<Rightarrow> (case traverse f xs of Inl e \<Rightarrow> Inl e | Inr ys \<Rightarrow> Inr (y # ys)))"

section \<open>\<^verbatim>\<open>get_camera_sync_line_name_mapping\<close>\<close>

text \<open>
  The value of one entry of \<^verbatim>\<open>get_exposure_fingerprint_durations_from_sync\<close>, for the
  line \<^verbatim>\<open>n\<close>. The subtraction of two one-dimensional arrays needs equal lengths, or
  one of them of length 1 (broadcast), and raises otherwise; the mean of an empty array is
  \<^verbatim>\<open>nan\<close>, which \<^verbatim>\<open>round\<close> refuses. The arithmetic itself is \<^verbatim>\<open>numpy\<close>'s, in
  \<^verbatim>\<open>float64\<close>, and is not reproduced here: \<open>rounded_mean_ms falling rising\<close> stands for
  the integer \<^verbatim>\<open>round((falling - rising).mean() * 1000)\<close> and is a parameter of every
  function that reaches this one. The edge times of a recording are finite and far from
  the ends of the range of \<^verbatim>\<open>float64\<close>, so the mean is finite and \<^verbatim>\<open>round\<close>
  returns.
\<close>

definition broadcastable :: "nat \<Rightarrow> nat \<Rightarrow> bool" where
  "broadcastable m n = (m = n \<or> m = 1 \<or> n = 1)"

definition fingerprint_duration_from_sync ::
  "(real list \<Rightarrow> real list \<Rightarrow> int) \<Rightarrow> sync_dataset \<Rightarrow> string \<Rightarrow> error + int" where
  "fingerprint_duration_from_sync rounded_mean_ms sync_data n =
     (let falling = take 8 (get_falling_edges sync_data n);
          rising = take 8 (get_rising_edges sync_data n)
      in if \<not> broadcastable (length falling) (length rising)
         then Inl (ValueError ''operands could not be broadcast together'')
         else if falling = [] \<or> rising = []
         then Inl (ValueError ''cannot convert float NaN to integer'')
         else Inr (rounded_mean_ms falling rising))"

definition get_exposure_fingerprint_durations_from_sync ::
  "(real list \<Rightarrow> real list \<Rightarrow> int) \<Rightarrow> sync_dataset \<Rightarrow> error + (string \<times> int) list" where
  "get_exposure_fingerprint_durations_from_sync rounded_mean_ms sync_data =
     traverse
       (\<lambda>camera_name.
          (case fingerprint_duration_from_sync rounded_mean_ms sync_data
                  (camera_name @ ''_cam_exposing'') of
             Inl e \<Rightarrow> Inl e
           | Inr d \<Rightarrow> Inr (camera_name @ ''_cam_exposing'', d)))
       camera_names_on_sync"

text \<open>
  \<^verbatim>\<open>camera_to_json_data[get_camera_name(camera_name)]['CustomInitialExposureTime']\<close>:
  whatever JSON value the metadata of that camera holds under the key.
\<close>

definition fingerprint_duration_from_json ::
  "(string \<times> (string \<times> json) list) list \<Rightarrow> string \<Rightarrow> error + json" where
  "fingerprint_duration_from_json camera_to_json_data camera_name =
     (case get_camera_name camera_name of
        Inl e \<Rightarrow> Inl e
      | Inr name \<Rightarrow>
          (case map_of camera_to_json_data name of
             None \<Rightarrow> Inl (KeyError name)
           | Some info \<Rightarrow>
               (case map_of info ''CustomInitialExposureTime'' of
                  None \<Rightarrow> Inl (KeyError ''CustomInitialExposureTime'')
                | Some v \<Rightarrow> Inr v)))"

definition get_exposure_fingerprint_durations_from_jsons ::
  "(string \<times> (string \<times> json) list) list \<Rightarrow> error + (string \<times> json) list" where
  "get_exposure_fingerprint_durations_from_jsons camera_to_json_data =
     traverse
       (\<lambda>camera_name.
          (case fingerprint_duration_from_json camera_to_json_data camera_name of
             Inl e \<Rightarrow> Inl e
           | Inr v \<Rightarrow> Inr (camera_name @ ''_cam_exposing'', v)))
       camera_names_on_sync"

text \<open>\<^verbatim>\<open>get_start_times_on_sync\<close>: the first rising edge of each of the six lines, in the
  order of the comprehension; a line with no rising edge raises \<^verbatim>\<open>IndexError\<close>.\<close>

definition get_start_times_on_sync :: "sync_dataset \<Rightarrow> error + (string \<times> real) list" where
  "get_start_times_on_sync sync_data =
     traverse
       (\<lambda>line. (case get_rising_edges sync_data line of
                   [] \<Rightarrow> Inl IndexError
                 | t # _ \<Rightarrow> Inr (line, t)))
       (concat (map (\<lambda>camera_name. map (\<lambda>line_suffix. camera_name @ line_suffix)
                                      [''_cam_exposing'', ''_cam_frame_readout''])
                    camera_names_on_sync))"

text \<open>
  The elements of a tuple are Python values of any class: here strings and floats, and a
  string never equals a float. \<^verbatim>\<open>tuple.index(x)\<close> is the position of the first element
  equal to \<^verbatim>\<open>x\<close>, and raises \<^verbatim>\<open>ValueError\<close> when there is none.
\<close>

datatype pyval = PStr string | PFloat real

fun tuple_index :: "pyval list \<Rightarrow> pyval \<Rightarrow> error + nat" where
  "tuple_index [] x = Inl (ValueError ''tuple.index(x): x not in tuple'')"
| "tuple_index (y # ys) x =
     (if y = x then Inr 0
      else (case tuple_index ys x of Inl e \<Rightarrow> Inl e | Inr i \<Rightarrow> Inr (Suc i)))"

text \<open>\<^verbatim>\<open>tuple(sorted(start_times_on_sync, key=start_times_on_sync.get))\<close>: the keys of the
  dictionary (the names of the lines), in the order of their values; the sort is stable.\<close>

definition lines_sorted_by_start_time :: "(string \<times> real) list \<Rightarrow> pyval list" where
  "lines_sorted_by_start_time start_times_on_sync =
     map (\<lambda>item. PStr (fst item)) (sort_key snd start_times_on_sync)"

text \<open>The number a JSON value stands for in \<^verbatim>\<open>expected_duration - actual\<close>; a value that
  is no number raises \<^verbatim>\<open>TypeError\<close> there.\<close>

fun json_number :: "json \<Rightarrow> error + real" where
  "json_number (JInt i) = Inr (of_int i)"
| "json_number (JFloat r) = Inr r"
| "json_number (JBool b) = Inr (if b then 1 else 0)"
| "json_number _ = Inl TypeError"

text \<open>\<^verbatim>\<open>min(xs, key=key)\<close>: the first element whose key is least.\<close>

fun first_min_by :: "('a \<Rightarrow> real) \<Rightarrow> 'a \<Rightarrow> 'a list \<Rightarrow> 'a" where
  "first_min_by key best [] = best"
| "first_min_by key best (x # xs) = first_min_by key (if key x < key best then x else best) xs"

definition py_min_by :: "('a \<Rightarrow> real) \<Rightarrow> 'a list \<Rightarrow> error + 'a" where
  "py_min_by key xs =
     (case xs of
        [] \<Rightarrow> Inl (ValueError ''min() arg is an empty sequence'')
      | x # rest \<Rightarrow> Inr (first_min_by key x rest))"

text \<open>
  Lines 391 to 397, the first half of a pass of the loop: the physical line whose measured
  duration is nearest to the duration the camera was configured with, written into the
  mapping under the camera's name. The dictionary of measured durations is the list of its
  items (its keys are distinct), so \<^verbatim>\<open>min\<close> over the keys with the key function
  \<^verbatim>\<open>abs(expected_duration - actual[line])\<close> is \<^verbatim>\<open>min\<close> over the items.
\<close>

definition actual_line_for :: "json \<Rightarrow> (string \<times> int) list \<Rightarrow> error + string" where
  "actual_line_for expected_duration actual_exposure_fingerprint_durations =
     (case json_number expected_duration of
        Inl e \<Rightarrow> (if actual_exposure_fingerprint_durations = []
                  then Inl (ValueError ''min() arg is an empty sequence'') else Inl e)
      | Inr expected \<Rightarrow>
          (case py_min_by (\<lambda>item. \<bar>expected - of_int (snd item)\<bar>)
                  actual_exposure_fingerprint_durations of
             Inl e \<Rightarrow> Inl e
           | Inr item \<Rightarrow> Inr (fst item)))"

definition assign_actual_line ::
  "(string \<times> json) list \<Rightarrow> (string \<times> int) list \<Rightarrow> (string \<times> string) list \<Rightarrow> string
   \<Rightarrow> error + (string \<times> string) list" where
  "assign_actual_line expected_exposure_fingerprint_durations actual_exposure_fingerprint_durations
     expected_to_actual_line_mapping sync_camera_name =
     (case map_of expected_exposure_fingerprint_durations (sync_camera_name @ ''_cam_exposing'') of
        None \<Rightarrow> Inl (KeyError (sync_camera_name @ ''_cam_exposing''))
      | Some expected_duration \<Rightarrow>
          (case actual_line_for expected_duration actual_exposure_fingerprint_durations of
             Inl e \<Rightarrow> Inl e
           | Inr actual_line \<Rightarrow>
               (case get_camera_name_on_sync actual_line of
                  Inl e \<Rightarrow> Inl e
                | Inr on_sync \<Rightarrow>
                    (case get_camera_name sync_camera_name of
                       Inl e \<Rightarrow> Inl e
                     | Inr name \<Rightarrow> Inr (AList.update name on_sync expected_to_actual_line_mapping)))))"

text \<open>
  Lines 398 to 401, the second half: the assertion. Each \<^verbatim>\<open>index\<close> call is given
  \<^verbatim>\<open>start_times_on_sync[line]\<close>, a float, and searches the tuple of line names for it.
\<close>

definition check_readout_follows_exposing ::
  "(string \<times> real) list \<Rightarrow> pyval list \<Rightarrow> string \<Rightarrow> error + unit" where
  "check_readout_follows_exposing start_times_on_sync lines_sorted sync_camera_name =
     (case map_of start_times_on_sync (sync_camera_name @ ''_cam_exposing'') of
        None \<Rightarrow> Inl (KeyError (sync_camera_name @ ''_cam_exposing''))
      | Some exposing_start \<Rightarrow>
          (case tuple_index lines_sorted (PFloat exposing_start) of
             Inl e \<Rightarrow> Inl e
           | Inr a \<Rightarrow>
               (case map_of start_times_on_sync (sync_camera_name @ ''_cam_frame_readout'') of
                  None \<Rightarrow> Inl (KeyError (sync_camera_name @ ''_cam_frame_readout''))
                | Some readout_start \<Rightarrow>
                    (case tuple_index lines_sorted (PFloat readout_start) of
                       Inl e \<Rightarrow> Inl e
                     | Inr b \<Rightarrow>
                         (if a + 1 = b then Inr ()
                          else Inl (AssertionError ''Expected ''))))))"

fun resolve_lines ::
  "(string \<times> real) list \<Rightarrow> pyval list \<Rightarrow> (string \<times> json) list \<Rightarrow> (string \<times> int) list
   \<Rightarrow> (string \<times> string) list \<Rightarrow> string list \<Rightarrow> error + (string \<times> string) list" where
  "resolve_lines start_times lines_sorted expected actual mapping [] = Inr mapping"
| "resolve_lines start_times lines_sorted expected actual mapping (sync_camera_name # rest) =
     (case assign_actual_line expected actual mapping sync_camera_name of
        Inl e \<Rightarrow> Inl e
      | Inr mapping' \<Rightarrow>
          (case check_readout_follows_exposing start_times lines_sorted sync_camera_name of
             Inl e \<Rightarrow> Inl e
           | Inr _ \<Rightarrow> resolve_lines start_times lines_sorted expected actual mapping' rest))"

text \<open>
  The function, from the opened sync file and the metadata of each camera (opening the
  files, and the cache in front of the function, are left out).
\<close>

definition get_camera_sync_line_name_mapping ::
  "(real list \<Rightarrow> real list \<Rightarrow> int) \<Rightarrow> sync_dataset \<Rightarrow> (string \<times> (string \<times> json) list) list
   \<Rightarrow> error + (string \<times> string) list" where
  "get_camera_sync_line_name_mapping rounded_mean_ms sync_data camera_to_json_data =
     (case get_start_times_on_sync sync_data of
        Inl e \<Rightarrow> Inl e
      | Inr start_times_on_sync \<Rightarrow>
          (case get_exposure_fingerprint_durations_from_jsons camera_to_json_data of
             Inl e \<Rightarrow> Inl e
           | Inr expected \<Rightarrow>
               (case get_exposure_fingerprint_durations_from_sync rounded_mean_ms sync_data of
                  Inl e \<Rightarrow> Inl e
                | Inr actual \<Rightarrow>
                    resolve_lines start_times_on_sync
                      (lines_sorted_by_start_time start_times_on_sync)
                      expected actual [] camera_names_on_sync)))"

text \<open>
  What the assertion is written to check, in the words of its message and of the
  specification: in the order of the first rising edges, the readout line of a camera
  stands right after its exposing line. Here the position of a line is looked up by its
  name.
\<close>

definition readout_follows_exposing :: "(string \<times> real) list \<Rightarrow> string \<Rightarrow> bool" where
  "readout_follows_exposing start_times_on_sync sync_camera_name =
     (case tuple_index (lines_sorted_by_start_time start_times_on_sync)
             (PStr (sync_camera_name @ ''_cam_exposing'')) of
        Inl _ \<Rightarrow> False
      | Inr a \<Rightarrow>
          (case tuple_index (lines_sorted_by_start_time start_times_on_sync)
                  (PStr (sync_camera_name @ ''_cam_frame_readout'')) of
             Inl _ \<Rightarrow> False
           | Inr b \<Rightarrow> a + 1 = b))"

text \<open>
  A recording with the lines wired as the names say, used below to run the function: each
  exposing line has two pulses, of 1, 2 and 3 milliseconds for the three cameras, and each
  readout line rises half a second after its exposing line. The metadata of the three
  cameras name the same durations.
\<close>

definition wired_sync :: sync_dataset where
  "wired_sync =
     \<lparr> line_labels = [''beh_cam_exposing'', ''beh_cam_frame_readout'', ''face_cam_exposing'',
                        ''face_cam_frame_readout'', ''eye_cam_exposing'', ''eye_cam_frame_readout''],
       get_rising_edges =
         (\<lambda>line. if line = ''beh_cam_exposing'' then [1, 2]
                 else if line = ''beh_cam_frame_readout'' then [1.5, 2.5]
                 else if line = ''face_cam_exposing'' then [3, 4]
                 else if line = ''face_cam_frame_readout'' then [3.5, 4.5]
                 else if line = ''eye_cam_exposing'' then [5, 6]
                 else if line = ''eye_cam_frame_readout'' then [5.5, 6.5]
                 else []),
       get_falling_edges =
         (\<lambda>line. if line = ''beh_cam_exposing'' then [1.001, 2.001]
                 else if line = ''face_cam_exposing'' then [3.002, 4.002]
                 else if line = ''eye_cam_exposing'' then [5.003, 6.003]
                 else []) \<rparr>"

definition wired_jsons :: "(string \<times> (string \<times> json) list) list" where
  "wired_jsons =
     [(''behavior'', [(''CustomInitialExposureTime'', JInt 1)]),
      (''face'', [(''CustomInitialExposureTime'', JInt 2)]),
      (''eye'', [(''CustomInitialExposureTime'', JInt 3)])]"

definition wired_start_times :: "(string \<times> real) list" where
  "wired_start_times =
     [(''beh_cam_exposing'', 1), (''beh_cam_frame_readout'', 1.5), (''face_cam_exposing'', 3),
      (''face_cam_frame_readout'', 3.5), (''eye_cam_exposing'', 5), (''eye_cam_frame_readout'', 5.5)]"

text \<open>
  The same cameras with the cables of the face and of the eye camera exchanged on the sync
  box: the lines named after the face camera carry the pulses of the eye camera, and the
  other way round. The docstring of the function shows the mapping it is to return for
  such a session: behavior to beh, face to eye, eye to face.
\<close>

definition miswired_sync :: sync_dataset where
  "miswired_sync =
     \<lparr> line_labels = [''beh_cam_exposing'', ''beh_cam_frame_readout'', ''face_cam_exposing'',
                        ''face_cam_frame_readout'', ''eye_cam_exposing'', ''eye_cam_frame_readout''],
       get_rising_edges =
         (\<lambda>line. if line = ''beh_cam_exposing'' then [1, 2]
                 else if line = ''beh_cam_frame_readout'' then [1.5, 2.5]
                 else if line = ''eye_cam_exposing'' then [3, 4]
                 else if line = ''eye_cam_frame_readout'' then [3.5, 4.5]
                 else if line = ''face_cam_exposing'' then [5, 6]
                 else if line = ''face_cam_frame_readout'' then [5.5, 6.5]
                 else []),
       get_falling_edges =
         (\<lambda>line. if line = ''beh_cam_exposing'' then [1.001, 2.001]
                 else if line = ''eye_cam_exposing'' then [3.002, 4.002]
                 else if line = ''face_cam_exposing'' then [5.003, 6.003]
                 else []) \<rparr>"

section \<open>\<^verbatim>\<open>remove_lost_frame_times\<close>\<close>

text \<open>
  \<^verbatim>\<open>[t for idx, t in enumerate(frame_times) if idx not in lost_frame_idx]\<close>.
  The index of \<^verbatim>\<open>enumerate\<close> is a natural number; the lost indices are integers
  (they come from a subtraction and may be negative).
\<close>

definition remove_lost_frame_times :: "'a list \<Rightarrow> int list \<Rightarrow> 'a list" where
  "remove_lost_frame_times frame_times lost_frame_idx =
     map snd (filter (\<lambda>(idx, t). int idx \<notin> set lost_frame_idx) (enumerate 0 frame_times))"

section \<open>\<^verbatim>\<open>get_video_frame_times\<close>\<close>

text \<open>A bound of a slice of a sequence of length \<open>n\<close>: a negative bound counts from
  the end, and a bound beyond either end is that end. \<^verbatim>\<open>xs[:n]\<close> is the slice up to the
  bound \<^verbatim>\<open>n\<close>.\<close>

definition py_bound :: "int \<Rightarrow> nat \<Rightarrow> nat" where
  "py_bound i n = (if i < 0 then nat (int n + i) else min (nat i) n)"

definition py_slice_to :: "int \<Rightarrow> 'a list \<Rightarrow> 'a list" where
  "py_slice_to n xs = take (py_bound n (length xs)) xs"

text \<open>
  Lines 461 to 489, the body of the loop for one camera, from the number of frames of its
  video file, the rising edges of its exposing line and its metadata.
\<close>

definition camera_frame_times ::
  "bool \<Rightarrow> int \<Rightarrow> real list \<Rightarrow> (string \<times> json) list \<Rightarrow> error + ftime list" where
  "camera_frame_times apply_correction num_frames_in_video exposing_times json_data =
     (case get_lost_frames_from_camera_info json_data of
        Inl e \<Rightarrow> Inl e
      | Inr lost \<Rightarrow>
          (let removed = remove_lost_frame_times (map Sec exposing_times) lost;
               inserted = NaN # removed;
               frames_missing_from_sync = num_frames_in_video - int (length inserted);
               corrected =
                 (if apply_correction \<and> 0 < frames_missing_from_sync
                  then inserted @ replicate (nat frames_missing_from_sync) NaN
                  else if apply_correction \<and> num_frames_in_video < int (length inserted)
                  then py_slice_to num_frames_in_video inserted
                  else inserted)
           in if apply_correction \<and> int (length corrected) \<noteq> num_frames_in_video
              then Inl (AssertionError ''Expected '')
              else Inr corrected))"

text \<open>
  Lines 456 to 491: the loop over the cameras that have exposing times. The paths of the
  video files, their frame counts (\<^verbatim>\<open>get_total_frames_in_video\<close> reads them from the
  files) and the metadata are given; the result is keyed by the path of the video.
\<close>

fun frame_times_loop ::
  "bool \<Rightarrow> (string \<Rightarrow> int) \<Rightarrow> (string \<times> string) list \<Rightarrow> (string \<times> (string \<times> json) list) list
   \<Rightarrow> (string \<times> ftime list) list \<Rightarrow> (string \<times> real list) list
   \<Rightarrow> error + (string \<times> ftime list) list" where
  "frame_times_loop apply_correction frames_in_video camera_to_video_path camera_to_json_data frame_times [] =
     Inr frame_times"
| "frame_times_loop apply_correction frames_in_video camera_to_video_path camera_to_json_data frame_times
     ((camera, exposing_times) # rest) =
     (case map_of camera_to_video_path camera of
        None \<Rightarrow>
          frame_times_loop apply_correction frames_in_video camera_to_video_path camera_to_json_data
            frame_times rest
      | Some video_path \<Rightarrow>
          (case map_of camera_to_json_data camera of
             None \<Rightarrow> Inl (KeyError camera)
           | Some json_data \<Rightarrow>
               (case camera_frame_times apply_correction (frames_in_video video_path) exposing_times json_data of
                  Inl e \<Rightarrow> Inl e
                | Inr camera_times \<Rightarrow>
                    frame_times_loop apply_correction frames_in_video camera_to_video_path camera_to_json_data
                      (AList.update video_path camera_times frame_times) rest)))"

text \<open>\<^verbatim>\<open>get_cam_line_times_on_sync\<close>: one entry per line whose label holds the suffix,
  under the name of its camera; \<open>edge_getter\<close> is \<^verbatim>\<open>sync_data.get_rising_edges\<close> or
  \<^verbatim>\<open>sync_data.get_falling_edges\<close>.\<close>

fun cam_line_times ::
  "(string \<Rightarrow> real list) \<Rightarrow> (string \<times> real list) list \<Rightarrow> string list
   \<Rightarrow> error + (string \<times> real list) list" where
  "cam_line_times edge_getter line_times [] = Inr line_times"
| "cam_line_times edge_getter line_times (line # rest) =
     (case get_camera_name line of
        Inl e \<Rightarrow> Inl e
      | Inr camera_name \<Rightarrow>
          cam_line_times edge_getter (AList.update camera_name (edge_getter line) line_times) rest)"

definition get_cam_line_times_on_sync ::
  "sync_dataset \<Rightarrow> string \<Rightarrow> (string \<Rightarrow> real list) \<Rightarrow> error + (string \<times> real list) list" where
  "get_cam_line_times_on_sync sync_data sync_line_suffix edge_getter =
     cam_line_times edge_getter [] (filter (is_substring sync_line_suffix) (line_labels sync_data))"

definition get_cam_exposing_times_on_sync :: "sync_dataset \<Rightarrow> error + (string \<times> real list) list" where
  "get_cam_exposing_times_on_sync sync_data =
     get_cam_line_times_on_sync sync_data ''_cam_exposing'' (get_rising_edges sync_data)"

definition get_cam_exposing_falling_edge_times_on_sync ::
  "sync_dataset \<Rightarrow> error + (string \<times> real list) list" where
  "get_cam_exposing_falling_edge_times_on_sync sync_data =
     get_cam_line_times_on_sync sync_data ''_cam_exposing'' (get_falling_edges sync_data)"

definition get_cam_transfer_times_on_sync :: "sync_dataset \<Rightarrow> error + (string \<times> real list) list" where
  "get_cam_transfer_times_on_sync sync_data =
     get_cam_line_times_on_sync sync_data ''_cam_frame_readout'' (get_rising_edges sync_data)"

text \<open>
  The whole function: the mapping of the lines first, then the exposing times of each
  camera taken from the line the mapping names, then the loop.
\<close>

definition get_video_frame_times ::
  "(real list \<Rightarrow> real list \<Rightarrow> int) \<Rightarrow> sync_dataset \<Rightarrow> (string \<times> string) list
   \<Rightarrow> (string \<times> (string \<times> json) list) list \<Rightarrow> (string \<Rightarrow> int) \<Rightarrow> bool
   \<Rightarrow> error + (string \<times> ftime list) list" where
  "get_video_frame_times rounded_mean_ms sync_data camera_to_video_path camera_to_json_data
     frames_in_video apply_correction =
     (case get_camera_sync_line_name_mapping rounded_mean_ms sync_data camera_to_json_data of
        Inl e \<Rightarrow> Inl e
      | Inr correct_sync_line_names \<Rightarrow>
          (case get_cam_exposing_times_on_sync sync_data of
             Inl e \<Rightarrow> Inl e
           | Inr camera_exposing_times \<Rightarrow>
               (case traverse
                       (\<lambda>camera.
                          (case map_of correct_sync_line_names camera of
                             None \<Rightarrow> Inl (KeyError camera)
                           | Some on_sync \<Rightarrow>
                               (case get_camera_name on_sync of
                                  Inl e \<Rightarrow> Inl e
                                | Inr name \<Rightarrow>
                                    (case map_of camera_exposing_times name of
                                       None \<Rightarrow> Inl (KeyError name)
                                     | Some edge_times \<Rightarrow> Inr (camera, edge_times)))))
                       (map fst camera_exposing_times) of
                  Inl e \<Rightarrow> Inl e
                | Inr remapped \<Rightarrow>
                    frame_times_loop apply_correction frames_in_video camera_to_video_path
                      camera_to_json_data [] remapped)))"

section \<open>The barcode\<close>

text \<open>
  A barcode image is one channel of a frame: rows of \<^verbatim>\<open>uint8\<close> pixels.
  \<^verbatim>\<open>np.mean\<close> adds the pixels up and divides by their number; the sums are far below
  \<open>2\<^sup>5\<^sup>3\<close> and between two rationals of such small denominators a \<^verbatim>\<open>float64\<close>
  rounding does not cross a threshold of \<^verbatim>\<open>round\<close>, so the mean is the exact quotient.
  The mean of an empty array is \<^verbatim>\<open>nan\<close>, here \<^const>\<open>None\<close>.
\<close>

type_synonym image = "8 word list list"

text \<open>
  Python's \<^verbatim>\<open>round\<close> of a float: to the nearest integer, a tie to the even one.
\<close>

definition py_round :: "real \<Rightarrow> int" where
  "py_round x =
     (let f = \<lfloor>x\<rfloor>; d = x - of_int f
      in if d < 1 / 2 then f else if 1 / 2 < d then f + 1 else if even f then f else f + 1)"

definition np_mean :: "image \<Rightarrow> real option" where
  "np_mean img =
     (if concat img = [] then None
      else Some (real (sum_list (map unat (concat img))) / real (length (concat img))))"

text \<open>\<^verbatim>\<open>img[:, start:stop]\<close> for two bounds that are not negative.\<close>

definition columns :: "nat \<Rightarrow> nat \<Rightarrow> image \<Rightarrow> image" where
  "columns start stop img = map (\<lambda>row. drop start (take stop row)) img"

definition border :: nat where "border = 1"
definition value_size :: nat where "value_size = 4"
definition num_values_per_group :: nat where "num_values_per_group = 4"
definition group_size :: nat where "group_size = num_values_per_group * (value_size + border * 2)"
definition group_separator :: nat where "group_separator = 3"
definition num_groups :: nat where "num_groups = 5"

text \<open>\<^verbatim>\<open>norm_mean\<close> of one cell: \<open>-1\<close> for black, \<open>0\<close> for grey, \<open>1\<close> for white, and
  \<^verbatim>\<open>nan\<close> when the cell lies outside the image.\<close>

definition norm_mean :: "image \<Rightarrow> int option" where
  "norm_mean value_image =
     (case np_mean value_image of
        None \<Rightarrow> None
      | Some mean_value \<Rightarrow> Some (py_round ((mean_value / 255) * 2 - 1)))"

definition value_image :: "image \<Rightarrow> nat \<Rightarrow> nat \<Rightarrow> image" where
  "value_image barcode_image group_idx value_idx =
     (let group_start = group_idx * (group_size + group_separator);
          group_end = group_start + group_size;
          group_image = columns group_start group_end barcode_image;
          value_start = (value_size + border) * value_idx + (value_idx + 1) * border;
          value_end = value_start + value_size
      in columns value_start value_end group_image)"

definition barcode_values :: "image \<Rightarrow> int option list" where
  "barcode_values barcode_image =
     concat (map (\<lambda>group_idx.
                    map (\<lambda>value_idx. norm_mean (value_image barcode_image group_idx value_idx))
                        [0 ..< num_values_per_group])
                 [0 ..< num_groups])"

definition exponent_values :: "image \<Rightarrow> int option list" where
  "exponent_values barcode_image = rev (barcode_values barcode_image)"

text \<open>The loop over \<^verbatim>\<open>enumerate(exponent_values)\<close>.\<close>

definition bits_value :: "int option list \<Rightarrow> int" where
  "bits_value evs =
     foldl (\<lambda>v (exponent, exponent_value).
              if exponent_value = Some 1 then v + 2 ^ exponent else v)
           0 (enumerate 0 evs)"

text \<open>
  The condition of the \<^verbatim>\<open>if\<close> at line 679. The second operand of \<^verbatim>\<open>and\<close> is evaluated
  only when the first holds; \<^verbatim>\<open>round(nan)\<close> raises.
\<close>

definition metadata_frame_test :: "image \<Rightarrow> error + bool" where
  "metadata_frame_test barcode_image =
     (if list_all (\<lambda>x. x = Some 1) (exponent_values barcode_image) then
        (case np_mean barcode_image of
           None \<Rightarrow> Inl (ValueError ''cannot convert float NaN to integer'')
         | Some m \<Rightarrow> Inr (250 < py_round m))
      else Inr False)"

definition get_barcode_value :: "image \<Rightarrow> error + int" where
  "get_barcode_value barcode_image =
     (case metadata_frame_test barcode_image of
        Inl e \<Rightarrow> Inl e
      | Inr True \<Rightarrow> Inr 0
      | Inr False \<Rightarrow> Inr (bits_value (exponent_values barcode_image)))"

section \<open>Reading the barcode of a frame\<close>

text \<open>
  A frame as OpenCV returns it: rows of pixels of three channels. A video is what
  \<^verbatim>\<open>read\<close> gives after the position is set to a frame number: a frame, or \<^verbatim>\<open>None\<close>
  when there is none.
\<close>

type_synonym frame = "(8 word \<times> 8 word \<times> 8 word) list list"
type_synonym video = "int \<Rightarrow> frame option"

text \<open>\<^verbatim>\<open>xs[start:stop]\<close> for any two integers.\<close>

definition py_slice :: "int \<Rightarrow> int \<Rightarrow> 'a list \<Rightarrow> 'a list" where
  "py_slice start stop xs =
     drop (py_bound start (length xs)) (take (py_bound stop (length xs)) xs)"

text \<open>\<^verbatim>\<open>int(v)\<close> for a JSON value.\<close>

fun py_int_of_json :: "json \<Rightarrow> error + int" where
  "py_int_of_json (JStr s) = py_int s"
| "py_int_of_json (JInt i) = Inr i"
| "py_int_of_json (JFloat r) = Inr (if 0 \<le> r then \<lfloor>r\<rfloor> else \<lceil>r\<rceil>)"
| "py_int_of_json (JBool b) = Inr (if b then 1 else 0)"
| "py_int_of_json _ = Inl TypeError"

definition default_coordinates :: "(string \<times> json) list" where
  "default_coordinates =
     [(''xOffset'', JStr ''0''), (''yOffset'', JStr ''0''),
      (''width'', JStr ''129''), (''height'', JStr ''3'')]"

definition get_barcode_image_coordinates :: "(string \<times> json) list \<Rightarrow> error + (string \<times> int) list" where
  "get_barcode_image_coordinates video_info =
     (case (case map_of video_info ''BarcodeCoordinates'' of
              None \<Rightarrow> Inr default_coordinates
            | Some (JObj given) \<Rightarrow> Inr given
            | Some _ \<Rightarrow> Inl AttributeError) of
        Inl e \<Rightarrow> Inl e
      | Inr items \<Rightarrow>
          traverse (\<lambda>(k, v). (case py_int_of_json v of Inl e \<Rightarrow> Inl e | Inr i \<Rightarrow> Inr (k, i)))
            items)"

definition coordinate :: "(string \<times> int) list \<Rightarrow> string \<Rightarrow> error + int" where
  "coordinate coordinates k =
     (case map_of coordinates k of None \<Rightarrow> Inl (KeyError k) | Some v \<Rightarrow> Inr v)"

text \<open>\<^verbatim>\<open>get_barcode_image\<close>: the keys are read before the frame is subscripted, and
  \<^verbatim>\<open>None\<close> cannot be subscripted.\<close>

definition get_barcode_image :: "frame option \<Rightarrow> (string \<times> int) list \<Rightarrow> error + frame" where
  "get_barcode_image frm coordinates =
     (case coordinate coordinates ''yOffset'' of Inl e \<Rightarrow> Inl e | Inr y \<Rightarrow>
      (case coordinate coordinates ''height'' of Inl e \<Rightarrow> Inl e | Inr h \<Rightarrow>
      (case coordinate coordinates ''xOffset'' of Inl e \<Rightarrow> Inl e | Inr x \<Rightarrow>
      (case coordinate coordinates ''width'' of Inl e \<Rightarrow> Inl e | Inr w \<Rightarrow>
      (case frm of
         None \<Rightarrow> Inl TypeError
       | Some rows \<Rightarrow>
           Inr (map (py_slice x (x + w + 3)) (py_slice (y + 1) (y + h) rows)))))))"

definition frame_number_assertion :: error where
  "frame_number_assertion = AssertionError []"

definition get_barcode_value_from_frame ::
  "video \<Rightarrow> int \<Rightarrow> (string \<times> int) list \<Rightarrow> error + int" where
  "get_barcode_value_from_frame video_data frame_number barcode_image_coordinates =
     (case get_barcode_image (video_data frame_number) barcode_image_coordinates of
        Inl e \<Rightarrow> Inl e
      | Inr cropped \<Rightarrow>
          (case get_barcode_value (map (map fst) cropped) of
             Inl e \<Rightarrow> Inl e
           | Inr v \<Rightarrow>
               (if v = 0 \<and> frame_number \<noteq> 0 then Inl frame_number_assertion else Inr v)))"

definition imprint_not_enabled :: error where
  "imprint_not_enabled = ValueError ''FrameID imprint not enabled in video''"

text \<open>\<^verbatim>\<open>get_frame_number_from_barcode\<close>, given an opened video. The flag is
  \<^verbatim>\<open>video_info.get("FrameID imprint enabled", False)\<close>.\<close>

definition imprint_flag :: "(string \<times> json) list \<Rightarrow> json" where
  "imprint_flag video_info =
     (case map_of video_info ''FrameID imprint enabled'' of None \<Rightarrow> JBool False | Some v \<Rightarrow> v)"

definition get_frame_number_from_barcode ::
  "video \<Rightarrow> (string \<times> json) list \<Rightarrow> int \<Rightarrow> error + int" where
  "get_frame_number_from_barcode video_data info_path_or_data frame_number =
     (case get_video_info_data info_path_or_data of
        JObj video_info \<Rightarrow>
          (if \<not> (imprint_flag video_info = JStr ''true'') then Inl imprint_not_enabled
           else
             (case get_barcode_image_coordinates video_info of
                Inl e \<Rightarrow> Inl e
              | Inr coordinates \<Rightarrow>
                  get_barcode_value_from_frame video_data frame_number coordinates))
      | _ \<Rightarrow> Inl AttributeError)"

text \<open>Python's truth value of a JSON value, to state what "truthy" means.\<close>

fun truthy :: "json \<Rightarrow> bool" where
  "truthy JNull = False"
| "truthy (JBool b) = b"
| "truthy (JInt i) = (i \<noteq> 0)"
| "truthy (JFloat r) = (r \<noteq> 0)"
| "truthy (JStr s) = (s \<noteq> [])"
| "truthy (JList l) = (l \<noteq> [])"
| "truthy (JObj d) = (d \<noteq> [])"

text \<open>
  Synthetic strips of two rows and 132 columns, laid out as the decoder reads them: five
  groups of four cells, a cell being four pixels of one value \<open>v\<close> between two border
  pixels of value \<open>b\<close>, and three pixels of value \<open>b\<close> between two groups. The borders are
  grey in \<^verbatim>\<open>black_strip\<close> and \<^verbatim>\<open>white_strip\<close>; \<^verbatim>\<open>white_frame\<close> is white all over.
\<close>

definition group_pixels :: "8 word \<Rightarrow> 8 word \<Rightarrow> 8 word list" where
  "group_pixels b v =
     [b, v, v, v, v, b, b, v, v, v, v, b, b, v, v, v, v, b, b, v, v, v, v, b]"

definition strip_row :: "8 word \<Rightarrow> 8 word \<Rightarrow> 8 word list" where
  "strip_row b v =
     group_pixels b v @ [b, b, b] @ group_pixels b v @ [b, b, b] @ group_pixels b v @
     [b, b, b] @ group_pixels b v @ [b, b, b] @ group_pixels b v"

definition black_strip :: image where
  "black_strip = [strip_row 128 0, strip_row 128 0]"

definition white_strip :: image where
  "white_strip = [strip_row 128 255, strip_row 128 255]"

definition white_frame :: image where
  "white_frame = [strip_row 255 255, strip_row 255 255]"

text \<open>A video from which no frame can be read, and metadata whose imprint flag is the
  JSON value \<^verbatim>\<open>true\<close>.\<close>

definition no_video :: video where
  "no_video = (\<lambda>frame_number. None)"

definition flag_is_json_true :: "(string \<times> json) list" where
  "flag_is_json_true = [(''FrameID imprint enabled'', JBool True)]"

section \<open>\<^verbatim>\<open>MVRDataset\<close>\<close>

text \<open>
  What the properties of the class read of a session, with the files already found and
  opened: the sync file and its start time, the path of the video file of each camera
  (a path stands for its stem, the one part of it that the functions read), the
  \<^verbatim>\<open>RecordingReport\<close> of each camera (the same cameras, since the metadata files are
  found from the video files), the opened video of each camera, the frame count of each
  video file as \<^verbatim>\<open>CAP_PROP_FRAME_COUNT\<close> gives it, and the outcome of the property
  \<^verbatim>\<open>video_start_times\<close>, which parses the dates under \<^verbatim>\<open>TimeStart\<close> (the parsing
  is the library's and is left out). Times are seconds on one clock. A property is
  computed when it is read; the cache in front of it does not change what is computed.
\<close>

record mvr_dataset =
  ds_sync_data :: sync_dataset
  ds_sync_start_time :: real
  ds_video_paths :: "(string \<times> string) list"
  ds_info_data :: "(string \<times> (string \<times> json) list) list"
  ds_video_data :: "(string \<times> video) list"
  ds_frames_in_video :: "string \<Rightarrow> int"
  ds_video_start_times :: "error + (string \<times> real) list"

definition lookup :: "('k \<times> 'v) list \<Rightarrow> 'k \<Rightarrow> ('k \<Rightarrow> error) \<Rightarrow> error + 'v" where
  "lookup d k err = (case map_of d k of None \<Rightarrow> Inl (err k) | Some v \<Rightarrow> Inr v)"

text \<open>The property \<^verbatim>\<open>frame_times\<close>: the frame times of all videos, with correction, keyed
  by the name of the camera found in the path.\<close>

definition dataset_frame_times ::
  "(real list \<Rightarrow> real list \<Rightarrow> int) \<Rightarrow> mvr_dataset \<Rightarrow> error + (string \<times> ftime list) list" where
  "dataset_frame_times rounded_mean_ms ds =
     (case get_video_frame_times rounded_mean_ms (ds_sync_data ds) (ds_video_paths ds)
             (ds_info_data ds) (ds_frames_in_video ds) True of
        Inl e \<Rightarrow> Inl e
      | Inr by_path \<Rightarrow>
          traverse (\<lambda>(p, frame_times).
                      (case get_camera_name p of
                         Inl e \<Rightarrow> Inl e
                       | Inr name \<Rightarrow> Inr (name, frame_times)))
                   by_path)"

text \<open>
  The entries of \<^verbatim>\<open>augmented_camera_info\<close> that \<^verbatim>\<open>validate\<close> reads. The number of
  lost frames is a JSON number, so the counts computed from it are real numbers.
\<close>

record augmented_info =
  num_frames_in_video :: int
  num_frames_expected_from_sync :: real
  expected_minus_actual :: real
  num_frames_from_sync :: int
  lost_frame_percentage :: real

text \<open>
  One pass of the loop of the property \<^verbatim>\<open>augmented_camera_info\<close> (lines 190 to 223).
  The number of frame times from sync is the length of the array that
  \<^verbatim>\<open>get_video_frame_times\<close> returns when it is called, without correction, with the
  video of this camera alone; the metadata it reads are then those of this camera alone.
  The entry \<^verbatim>\<open>signature_exposure_duration\<close> (a rounded median, which raises nothing)
  is not read by \<^verbatim>\<open>validate\<close> and is left out.
\<close>

definition augment_camera ::
  "(real list \<Rightarrow> real list \<Rightarrow> int) \<Rightarrow> mvr_dataset \<Rightarrow> (string \<times> real list) list
   \<Rightarrow> (string \<times> real list) list \<Rightarrow> (string \<times> real list) list \<Rightarrow> string \<times> string
   \<Rightarrow> error + string \<times> augmented_info" where
  "augment_camera rounded_mean_ms ds cam_exposing_times cam_transfer_times
     cam_exposing_falling_edge_times camera =
     (case camera of (camera_name, video_path) \<Rightarrow>
      (case lookup (ds_info_data ds) camera_name KeyError of Inl e \<Rightarrow> Inl e | Inr camera_info \<Rightarrow>
      (case lookup camera_info ''FramesLostCount'' KeyError of Inl e \<Rightarrow> Inl e | Inr frames_lost \<Rightarrow>
      (case lookup cam_exposing_times camera_name KeyError of Inl e \<Rightarrow> Inl e | Inr exposures \<Rightarrow>
      (case lookup cam_transfer_times camera_name KeyError of Inl e \<Rightarrow> Inl e | Inr transfers \<Rightarrow>
      (case json_number frames_lost of Inl e \<Rightarrow> Inl e | Inr lost \<Rightarrow>
      (case lookup cam_exposing_falling_edge_times camera_name KeyError of
         Inl e \<Rightarrow> Inl e | Inr falling \<Rightarrow>
      (if \<not> broadcastable (length (take 10 falling)) (length (take 10 exposures))
       then Inl (ValueError ''operands could not be broadcast together'')
       else
      (case get_video_frame_times rounded_mean_ms (ds_sync_data ds) [(camera_name, video_path)]
              [(camera_name, camera_info)] (ds_frames_in_video ds) False of
         Inl e \<Rightarrow> Inl e | Inr by_path \<Rightarrow>
      (case lookup by_path video_path KeyError of Inl e \<Rightarrow> Inl e | Inr uncorrected \<Rightarrow>
      (case lookup camera_info ''FramesRecorded'' KeyError of Inl e \<Rightarrow> Inl e | Inr v \<Rightarrow>
      (case json_number v of Inl e \<Rightarrow> Inl e | Inr recorded \<Rightarrow>
      (if recorded = 0 then Inl ZeroDivisionError
       else
         Inr (camera_name,
              \<lparr> num_frames_in_video = ds_frames_in_video ds video_path,
                num_frames_expected_from_sync = real (length transfers) - lost + 1,
                expected_minus_actual =
                  real (length transfers) - lost + 1
                  - real_of_int (ds_frames_in_video ds video_path),
                num_frames_from_sync = int (length uncorrected),
                lost_frame_percentage = 100 * lost / recorded \<rparr>))))))))))))))"

definition augmented_camera_info ::
  "(real list \<Rightarrow> real list \<Rightarrow> int) \<Rightarrow> mvr_dataset \<Rightarrow> error + (string \<times> augmented_info) list" where
  "augmented_camera_info rounded_mean_ms ds =
     (case get_cam_exposing_times_on_sync (ds_sync_data ds) of
        Inl e \<Rightarrow> Inl e
      | Inr cam_exposing_times \<Rightarrow>
          (case get_cam_transfer_times_on_sync (ds_sync_data ds) of
             Inl e \<Rightarrow> Inl e
           | Inr cam_transfer_times \<Rightarrow>
               (case get_cam_exposing_falling_edge_times_on_sync (ds_sync_data ds) of
                  Inl e \<Rightarrow> Inl e
                | Inr cam_exposing_falling_edge_times \<Rightarrow>
                    traverse (augment_camera rounded_mean_ms ds cam_exposing_times
                                cam_transfer_times cam_exposing_falling_edge_times)
                             (ds_video_paths ds))))"

text \<open>
  The property \<^verbatim>\<open>num_lost_frames_from_barcodes\<close>: for each camera the barcode of the
  last frame of its video minus the index of that frame; a \<^verbatim>\<open>ValueError\<close> of the decoder
  is turned into \<^verbatim>\<open>AttributeError\<close>.
\<close>

definition num_lost_frames_from_barcodes :: "mvr_dataset \<Rightarrow> error + (string \<times> int) list" where
  "num_lost_frames_from_barcodes ds =
     traverse
       (\<lambda>(camera_name, video_path).
          (case lookup (ds_video_data ds) camera_name KeyError of Inl e \<Rightarrow> Inl e | Inr video_data \<Rightarrow>
          (case lookup (ds_info_data ds) camera_name KeyError of Inl e \<Rightarrow> Inl e | Inr video_info \<Rightarrow>
          (let actual_last_frame_index = ds_frames_in_video ds video_path - 1
           in (case get_frame_number_from_barcode video_data video_info actual_last_frame_index of
                 Inl (ValueError _) \<Rightarrow> Inl AttributeError
               | Inl e \<Rightarrow> Inl e
               | Inr last_frame_barcode_value \<Rightarrow>
                   Inr (camera_name, last_frame_barcode_value - actual_last_frame_index))))))
       (ds_video_paths ds)"

section \<open>\<^verbatim>\<open>MVRDataset.validate\<close>\<close>

text \<open>The three thresholds. The numbers compared are real numbers here and \<^verbatim>\<open>float64\<close>
  values in the source, which rounds the difference and the percentage before it compares
  them.\<close>

definition is_acceptable_frame_rate :: "real \<Rightarrow> bool" where
  "is_acceptable_frame_rate frame_rate = (\<bar>frame_rate - 60\<bar> \<le> 0.05)"

definition is_acceptable_lost_frame_percentage :: "real \<Rightarrow> bool" where
  "is_acceptable_lost_frame_percentage percentage = (percentage < 0.05)"

definition is_acceptable_expected_minus_actual_frame_count :: "real \<Rightarrow> bool" where
  "is_acceptable_expected_minus_actual_frame_count difference = (\<bar>difference\<bar> < 20)"

text \<open>
  The values a pass of the loop of \<^verbatim>\<open>validate\<close> holds for one camera after lines 263 to
  266, and the outcomes of the two properties read inside the checks:
  \<^verbatim>\<open>self.video_start_times[camera]\<close>, and \<^verbatim>\<open>num_lost_frames_from_barcodes\<close>, for which
  \<^verbatim>\<open>hasattr\<close> is false exactly when its evaluation raises \<^verbatim>\<open>AttributeError\<close>, any
  other exception leaving \<^verbatim>\<open>validate\<close>.
\<close>

record camera_data =
  camera_times :: "ftime list"
  frame_count :: real
  info_json :: "(string \<times> json) list"
  augmented :: augmented_info
  video_start_time :: "error + real"
  sync_start_time :: real
  barcode_lost_frames :: "error + int"

definition info_number :: "(string \<times> json) list \<Rightarrow> string \<Rightarrow> error + real" where
  "info_number info k =
     (case map_of info k of None \<Rightarrow> Inl (KeyError k) | Some v \<Rightarrow> json_number v)"

definition check_frames_on_sync :: "camera_data \<Rightarrow> error + unit" where
  "check_frames_on_sync c =
     (if list_all (\<lambda>t. t = Sec 0) (camera_times c) \<or> list_all (\<lambda>t. t = NaN) (camera_times c)
      then Inl (AssertionError ''No frames recorded on sync for '')
      else Inr ())"

definition check_frame_count :: "camera_data \<Rightarrow> error + unit" where
  "check_frame_count c =
     (case info_number (info_json c) ''FramesRecorded'' of
        Inl e \<Rightarrow> Inl e
      | Inr b \<Rightarrow>
          (if 1 < frame_count c - b then Inl (AssertionError ''Frame count from '')
           else Inr ()))"

definition check_start_time :: "camera_data \<Rightarrow> error + unit" where
  "check_start_time c =
     (case video_start_time c of
        Inl e \<Rightarrow> Inl e
      | Inr started \<Rightarrow>
          (if started < sync_start_time c
           then Inl (AssertionError ''Video start time is before sync start time for '')
           else Inr ()))"

definition check_barcode_lost_frames :: "camera_data \<Rightarrow> error + unit" where
  "check_barcode_lost_frames c =
     (case barcode_lost_frames c of
        Inl AttributeError \<Rightarrow> Inr ()
      | Inl e \<Rightarrow> Inl e
      | Inr b \<Rightarrow>
          (case get_lost_frames_from_camera_info (info_json c) of
             Inl e \<Rightarrow> Inl e
           | Inr lost \<Rightarrow>
               (if int (length lost) \<noteq> b
                then Inl (AssertionError ''Lost frame count from frame barcodes ('')
                else Inr ())))"

definition check_frame_rate :: "camera_data \<Rightarrow> error + unit" where
  "check_frame_rate c =
     (case info_number (info_json c) ''FPS'' of
        Inl e \<Rightarrow> Inl e
      | Inr fps \<Rightarrow>
          (if \<not> is_acceptable_frame_rate fps then Inl (AssertionError ''Invalid frame rate: '')
           else Inr ()))"

definition check_lost_frame_percentage :: "camera_data \<Rightarrow> error + unit" where
  "check_lost_frame_percentage c =
     (if \<not> is_acceptable_lost_frame_percentage (lost_frame_percentage (augmented c))
      then Inl (AssertionError ''Lost frame percentage too high: '')
      else Inr ())"

definition frame_count_too_high :: error where
  "frame_count_too_high = AssertionError ''Expected minus actual frame count too high: ''"

definition check_expected_minus_actual :: "camera_data \<Rightarrow> error + unit" where
  "check_expected_minus_actual c =
     (if \<not> is_acceptable_expected_minus_actual_frame_count (expected_minus_actual (augmented c))
      then (if num_frames_expected_from_sync (augmented c)
               \<noteq> real_of_int (num_frames_from_sync (augmented c))
            then Inl frame_count_too_high
            else Inr ())
      else Inr ())"

text \<open>Lines 268 to 307: the checks in the order of the source; the first that fails
  raises.\<close>

fun first_failure :: "('a \<Rightarrow> error + unit) list \<Rightarrow> 'a \<Rightarrow> error + unit" where
  "first_failure [] c = Inr ()"
| "first_failure (check # checks) c =
     (case check c of Inl e \<Rightarrow> Inl e | Inr _ \<Rightarrow> first_failure checks c)"

definition camera_checks :: "camera_data \<Rightarrow> error + unit" where
  "camera_checks =
     first_failure
       [check_frames_on_sync, check_frame_count, check_start_time, check_barcode_lost_frames,
        check_frame_rate, check_lost_frame_percentage, check_expected_minus_actual]"

text \<open>
  The loop of \<^verbatim>\<open>validate\<close> over the cameras that have a video. Lines 263 to 266 read,
  in this order, the opened video, the metadata, the entry of
  \<^verbatim>\<open>augmented_camera_info\<close> and the entry of \<^verbatim>\<open>frame_times\<close>; the checks follow.
\<close>

fun validate_cameras ::
  "(real list \<Rightarrow> real list \<Rightarrow> int) \<Rightarrow> mvr_dataset \<Rightarrow> (string \<times> string) list \<Rightarrow> error + unit" where
  "validate_cameras rounded_mean_ms ds [] = Inr ()"
| "validate_cameras rounded_mean_ms ds ((camera, video_path) # rest) =
     (case lookup (ds_video_data ds) camera KeyError of Inl e \<Rightarrow> Inl e | Inr video_data \<Rightarrow>
     (case lookup (ds_info_data ds) camera KeyError of Inl e \<Rightarrow> Inl e | Inr info \<Rightarrow>
     (case augmented_camera_info rounded_mean_ms ds of Inl e \<Rightarrow> Inl e | Inr all_augmented \<Rightarrow>
     (case lookup all_augmented camera KeyError of Inl e \<Rightarrow> Inl e | Inr augmented_info \<Rightarrow>
     (case dataset_frame_times rounded_mean_ms ds of Inl e \<Rightarrow> Inl e | Inr all_times \<Rightarrow>
     (case lookup all_times camera KeyError of Inl e \<Rightarrow> Inl e | Inr frame_times \<Rightarrow>
     (case camera_checks
             \<lparr> camera_times = frame_times,
               frame_count = real_of_int (ds_frames_in_video ds video_path),
               info_json = info,
               augmented = augmented_info,
               video_start_time =
                 (case ds_video_start_times ds of
                    Inl e \<Rightarrow> Inl e
                  | Inr started \<Rightarrow> lookup started camera KeyError),
               sync_start_time = ds_sync_start_time ds,
               barcode_lost_frames =
                 (case num_lost_frames_from_barcodes ds of
                    Inl e \<Rightarrow> Inl e
                  | Inr lost \<Rightarrow> lookup lost camera KeyError) \<rparr> of
        Inl e \<Rightarrow> Inl e
      | Inr _ \<Rightarrow> validate_cameras rounded_mean_ms ds rest)))))))"

definition validate :: "(real list \<Rightarrow> real list \<Rightarrow> int) \<Rightarrow> mvr_dataset \<Rightarrow> error + unit" where
  "validate rounded_mean_ms ds = validate_cameras rounded_mean_ms ds (ds_video_paths ds)"

text \<open>
  A session recorded with the lines wired as the names say, on which the recorder stopped
  its pulses early: the recording \<^const>\<open>wired_sync\<close>, with two exposures and two
  readouts of each camera, and three video files of 30 frames each (the metadata frame and
  29 recorded frames, white all over: the imprint of the frame number is not enabled), no
  lost frame, 60 frames per second, each video started after the sync file. Three frames
  are expected from sync for each camera, 27 fewer than each video holds, and the
  uncorrected frame times of a camera are three as well: the metadata frame and the two
  exposures.
\<close>

definition wired_videos :: "(string \<times> string) list" where
  "wired_videos =
     [(''behavior'', ''Behavior_20230803T120430''), (''face'', ''Face_20230803T120430''),
      (''eye'', ''Eye_20230803T120430'')]"

definition wired_report :: "int \<Rightarrow> (string \<times> json) list" where
  "wired_report exposure_time =
     [(''CustomInitialExposureTime'', JInt exposure_time), (''FramesLostCount'', JInt 0),
      (''FramesRecorded'', JInt 29), (''FPS'', JInt 60)]"

definition wired_reports :: "(string \<times> (string \<times> json) list) list" where
  "wired_reports =
     [(''behavior'', wired_report 1), (''face'', wired_report 2), (''eye'', wired_report 3)]"

definition wired_frames :: "string \<Rightarrow> int" where
  "wired_frames video_path = 30"

definition wired_video :: video where
  "wired_video frame_number =
     (if 0 \<le> frame_number \<and> frame_number < 30
      then Some (map (map (\<lambda>pixel. (pixel, pixel, pixel))) white_frame)
      else None)"

definition wired_dataset :: mvr_dataset where
  "wired_dataset =
     \<lparr> ds_sync_data = wired_sync,
       ds_sync_start_time = 0,
       ds_video_paths = wired_videos,
       ds_info_data = wired_reports,
       ds_video_data =
         [(''behavior'', wired_video), (''face'', wired_video), (''eye'', wired_video)],
       ds_frames_in_video = wired_frames,
       ds_video_start_times = Inr [(''behavior'', 0.5), (''face'', 0.5), (''eye'', 0.5)] \<rparr>"

section \<open>Properties of \<^verbatim>\<open>remove_lost_frame_times\<close>\<close>

lemma remove_lost_enumerate:
  "map snd (filter (\<lambda>(idx, t). int idx \<notin> set lost) (enumerate n xs)) =
   nths xs {i. int (i + n) \<notin> set lost}"
proof (induction xs arbitrary: n)
  case Nil
  show ?case by simp
next
  case (Cons x xs)
  from Cons [of "Suc n"] show ?case
    by (simp add: nths_Cons add.assoc)
qed

text \<open>
  C5. For every sequence of timestamps and every collection of lost indices,
  \<^verbatim>\<open>remove_lost_frame_times\<close> returns the entries of the input whose position is not a
  lost index, in their original order (\<^const>\<open>nths\<close> is the order-preserving selection
  of a list by a set of positions); with no lost index the input comes back unchanged.
\<close>

theorem remove_lost_frame_times_spec:
  "remove_lost_frame_times xs lost = nths xs {i. int i \<notin> set lost}
   \<and> remove_lost_frame_times xs [] = xs"
proof
  show "remove_lost_frame_times xs lost = nths xs {i. int i \<notin> set lost}"
    using remove_lost_enumerate [of lost 0 xs] by (simp add: remove_lost_frame_times_def)
  have "remove_lost_frame_times xs [] = nths xs {i. int i \<notin> set []}"
    using remove_lost_enumerate [of "[]" 0 xs] by (simp add: remove_lost_frame_times_def)
  then show "remove_lost_frame_times xs [] = xs"
    by (simp add: nths_all)
qed

theorem remove_lost_frame_times_spec_witness:
  "remove_lost_frame_times [1, 2, 3, 4, 5 :: real] [1, 3] = [1, 3, 5]
   \<and> remove_lost_frame_times [1, 2, 3, 4, 5 :: real] [] = [1, 2, 3, 4, 5]"
proof -
  have "nths [1, 2, 3, 4, 5 :: real] {i. int i \<notin> set [1, 3]} = [1, 3, 5]"
    by (simp add: nths_Cons)
  with remove_lost_frame_times_spec [of "[1, 2, 3, 4, 5 :: real]" "[1, 3]"]
  show ?thesis by simp
qed

section \<open>Properties of the lost-frame spans\<close>

lemma digit_char_cases:
  assumes "d < 10"
  shows "d = 0 \<or> d = 1 \<or> d = 2 \<or> d = 3 \<or> d = 4 \<or> d = 5 \<or> d = 6 \<or> d = 7 \<or> d = 8 \<or> d = (9::nat)"
  using assms by arith

lemma digit_char_props:
  assumes "d < 10"
  shows "digit_val (digit_char d) = Some d"
    and "digit_char d \<noteq> CHR ''_''" and "digit_char d \<noteq> CHR ''-''"
    and "digit_char d \<noteq> CHR ''+''" and "digit_char d \<noteq> CHR '',''"
    and "\<not> is_space (digit_char d)"
  using digit_char_cases [OF assms]
  by (auto simp: digit_val_def digit_char_def is_space_def upt_conv_Cons)

lemma mod10_lt: "n mod 10 < (10::nat)" by simp

lemma decimal_not_Nil: "decimal n \<noteq> []"
  by (subst decimal.simps) simp

lemma decimal_chars:
  "c \<in> set (decimal n) \<Longrightarrow> \<exists>d<10. c = digit_char d"
proof (induction n rule: decimal.induct)
  case (1 n)
  show ?case
  proof (cases "n < 10")
    case True
    with "1.prems" show ?thesis by (subst (asm) decimal.simps) auto
  next
    case False
    with "1.prems" have "c \<in> set (decimal (n div 10)) \<or> c = digit_char (n mod 10)"
      by (subst (asm) decimal.simps) auto
    with False "1.IH" mod10_lt show ?thesis by blast
  qed
qed

lemma digits_value_decimal:
  "digits_value b acc (decimal n @ ys) = digits_value True (acc * 10 ^ length (decimal n) + n) ys"
proof (induction n arbitrary: ys rule: decimal.induct)
  case (1 n)
  show ?case
  proof (cases "n < 10")
    case True
    then have "decimal n = [digit_char n]" by (subst decimal.simps) simp
    with True show ?thesis by (simp add: digit_char_props mult.commute)
  next
    case False
    then have eq: "decimal n = decimal (n div 10) @ [digit_char (n mod 10)]"
      by (subst decimal.simps) simp
    have "digits_value b acc (decimal n @ ys) =
          digits_value True (acc * 10 ^ length (decimal (n div 10)) + n div 10) (digit_char (n mod 10) # ys)"
      using "1.IH" [OF False, of "digit_char (n mod 10) # ys"] by (simp add: eq)
    also have "\<dots> = digits_value True (10 * (acc * 10 ^ length (decimal (n div 10)) + n div 10) + n mod 10) ys"
      by (simp add: digit_char_props)
    also have "10 * (acc * 10 ^ length (decimal (n div 10)) + n div 10) + n mod 10 =
               acc * 10 ^ length (decimal n) + n"
      by (simp add: eq algebra_simps)
    finally show ?thesis .
  qed
qed

lemma dropWhile_id: "(\<And>x. x \<in> set xs \<Longrightarrow> \<not> P x) \<Longrightarrow> dropWhile P xs = xs"
  by (cases xs) auto

lemma strip_decimal: "strip (decimal n) = decimal n"
proof -
  have ns: "\<not> is_space c" if "c \<in> set (decimal n)" for c
    using decimal_chars [OF that] digit_char_props(6) by blast
  have "dropWhile is_space (decimal n) = decimal n"
    by (rule dropWhile_id) (rule ns)
  moreover have "dropWhile is_space (rev (decimal n)) = rev (decimal n)"
    by (rule dropWhile_id) (simp add: ns)
  ultimately show ?thesis by (simp add: strip_def)
qed

lemma decimal_length: "n < 10 ^ k \<Longrightarrow> 0 < k \<Longrightarrow> length (decimal n) \<le> k"
proof (induction n arbitrary: k rule: decimal.induct)
  case (1 n)
  show ?case
  proof (cases "n < 10")
    case True
    then have "decimal n = [digit_char n]" by (subst decimal.simps) simp
    with "1.prems" show ?thesis by simp
  next
    case False
    then have eq: "decimal n = decimal (n div 10) @ [digit_char (n mod 10)]"
      by (subst decimal.simps) simp
    from False "1.prems" have "k \<noteq> 1" by auto
    with "1.prems" obtain j where k: "k = Suc j" and j: "0 < j" by (cases k) auto
    from "1.prems" k have "n div 10 < 10 ^ j"
      by (simp add: less_mult_imp_div_less mult.commute)
    from "1.IH" [OF False this j] show ?thesis by (simp add: eq k)
  qed
qed

lemma decimal_below_limit:
  assumes "int n < 2 ^ 63 - 1"
  shows "length (decimal n) \<le> 4300"
proof -
  have "int n < 10 ^ 19" using assms by simp
  then have "n < 10 ^ 19" by (simp add: of_nat_less_numeral_power_cancel_iff)
  from decimal_length [OF this] show ?thesis by simp
qed

lemma int_literal_decimal:
  assumes "length (decimal n) \<le> 4300"
  shows "int_literal (decimal n) = Inr n"
proof -
  have digits: "c = CHR ''_'' \<or> digit_val c \<noteq> None" if "c \<in> set (decimal n)" for c
    using decimal_chars [OF that] digit_char_props(1) by auto
  have plain: "c \<noteq> CHR ''_''" if "c \<in> set (decimal n)" for c
    using decimal_chars [OF that] digit_char_props(2) by auto
  have run: "takeWhile (\<lambda>c. c = CHR ''_'' \<or> digit_val c \<noteq> None) (decimal n) = decimal n"
    using digits by (simp add: takeWhile_eq_all_conv)
  have counted: "filter (\<lambda>c. c \<noteq> CHR ''_'') (decimal n) = decimal n"
    using plain by (simp add: filter_id_conv)
  have "digits_value False 0 (decimal n @ []) = Some n"
    by (subst digits_value_decimal) simp
  then have "digits_value False 0 (decimal n) = Some n" by simp
  with assms show ?thesis
    unfolding int_literal_def run Let_def counted by simp
qed

lemma py_int_decimal:
  assumes "length (decimal n) \<le> 4300"
  shows "py_int (decimal n) = Inr (int n)"
proof -
  obtain c cs where cs: "decimal n = c # cs"
    using decimal_not_Nil [of n] by (cases "decimal n") auto
  then have "c \<in> set (decimal n)" by simp
  then obtain d where "d < 10" "c = digit_char d"
    using decimal_chars by blast
  then have c: "c \<noteq> CHR ''-''" "c \<noteq> CHR ''+''"
    by (simp_all add: digit_char_props)
  have "strip (decimal n) = c # cs"
    using strip_decimal [of n] by (simp add: cs)
  with c int_literal_decimal [OF assms] show ?thesis
    by (simp add: py_int_def cs)
qed

lemma split_on_absent: "sep \<notin> set xs \<Longrightarrow> split_on sep (xs @ sep # ys) = xs # split_on sep ys"
  by (induction xs) auto

lemma split_on_none: "sep \<notin> set xs \<Longrightarrow> split_on sep xs = [xs]"
  by (induction xs) auto

lemma decimal_no_sep:
  "CHR ''-'' \<notin> set (decimal n)" "CHR '','' \<notin> set (decimal n)"
proof -
  show "CHR ''-'' \<notin> set (decimal n)"
  proof
    assume "CHR ''-'' \<in> set (decimal n)"
    then obtain d where "d < 10" "CHR ''-'' = digit_char d"
      using decimal_chars by blast
    then show False using digit_char_props(3) [of d] by simp
  qed
  show "CHR '','' \<notin> set (decimal n)"
  proof
    assume "CHR '','' \<in> set (decimal n)"
    then obtain d where "d < 10" "CHR '','' = digit_char d"
      using decimal_chars by blast
    then show False using digit_char_props(5) [of d] by simp
  qed
qed

lemma span_frames_single:
  assumes "int a < 2 ^ 63 - 1"
  shows "span_frames (decimal a) = Inr (True, [int a])"
  using assms
  by (simp add: span_frames_def split_on_none decimal_no_sep py_int_decimal decimal_below_limit
      fits_int64_def)

lemma span_frames_range:
  assumes "int a < 2 ^ 63 - 1" and "int b < 2 ^ 63 - 1"
  shows "span_frames (decimal a @ CHR ''-'' # decimal b) = Inr (True, [int a .. int b])"
  using assms
  by (simp add: span_frames_def split_on_none split_on_absent decimal_no_sep py_int_decimal
      decimal_below_limit fits_int64_def)

lemma span_text_no_comma: "CHR '','' \<notin> set (span_text sp)"
  by (cases sp) (simp_all add: decimal_no_sep)

lemma upto_shift: "map (\<lambda>i. i + 1) [a - 1 .. b - 1] = [a .. (b::int)]"
proof (induction a b rule: upto.induct)
  case (1 i j)
  show ?case
  proof (cases "i \<le> j")
    case True
    then have "[i .. j] = i # [i + 1 .. j]" by (simp add: upto_rec1)
    moreover from True have "[i - 1 .. j - 1] = (i - 1) # [i .. j - 1]" by (simp add: upto_rec1)
    ultimately show ?thesis using "1.IH" [OF True] by simp
  next
    case False
    then show ?thesis by simp
  qed
qed

lemma span_frames_indices:
  "frame_numbers_fit sp \<Longrightarrow>
   span_frames (span_text sp) = Inr (True, map (\<lambda>i. i + 1) (span_indices sp))"
  by (cases sp) (simp_all add: span_frames_single span_frames_range upto_shift)

lemma collect_spans_text:
  "spans \<noteq> [] \<Longrightarrow> list_all frame_numbers_fit spans \<Longrightarrow>
   collect_lost_frames fits acc (split_on CHR '','' (spans_text spans)) =
   Inr (fits, acc @ map (\<lambda>i. i + 1) (concat (map span_indices spans)))"
proof (induction spans arbitrary: acc rule: spans_text.induct)
  case 1
  then show ?case by simp
next
  case (2 sp)
  then show ?case by (simp add: split_on_none span_text_no_comma span_frames_indices)
next
  case (3 sp sq sps)
  have "split_on CHR '','' (spans_text (sp # sq # sps)) =
        span_text sp # split_on CHR '','' (spans_text (sq # sps))"
    using split_on_absent [OF span_text_no_comma, of sp "spans_text (sq # sps)"] by simp
  with 3 show ?case by (simp add: span_frames_indices)
qed

lemma lost_frames_of_spans_text:
  assumes "spans \<noteq> []" and "list_all frame_numbers_fit spans"
  shows "lost_frames_of_first (JStr (spans_text spans)) = Inr (concat (map span_indices spans))"
  using collect_spans_text [OF assms, of True "[]"]
  by (simp add: lost_frames_of_first_def comp_def)

lemmas parse_eval =
  get_lost_frames_from_camera_info_def get_video_info_data_def lost_frames_of_first_def
  span_frames_def py_int_def int_literal_def strip_def is_space_def digit_val_def fits_int64_def
  upt_conv_Cons upto_rec1

text \<open>
  C3. The span string of the metadata is expanded into 0-indexed positions: when the
  lost-frame count is not zero and the first element of \<^verbatim>\<open>LostFrames\<close> is the text of
  a non-empty list of spans whose frame numbers are below \<open>2\<^sup>6\<^sup>3 - 1\<close> (they fit the
  64-bit integers of \<^verbatim>\<open>numpy\<close>), the function returns, span after span, \<open>a - 1\<close> for a
  single number \<open>a\<close> and the integers from \<open>a - 1\<close> to \<open>b - 1\<close> for a range \<open>a-b\<close>;
  and the string \<^verbatim>\<open>1-2,4-5,7\<close> gives the positions 0, 1, 3, 4, 6.
\<close>

theorem lost_frame_spans_expand:
  assumes "get_video_info_data d = JObj info"
    and "\<not> py_eq_zero (map_of info ''FramesLostCount'')"
    and "map_of info ''LostFrames'' = Some (JList (JStr (spans_text spans) # others))"
    and "spans \<noteq> []"
    and "list_all frame_numbers_fit spans"
  shows "get_lost_frames_from_camera_info d = Inr (concat (map span_indices spans))
       \<and> span_indices (Single a) = [int a - 1]
       \<and> span_indices (Range a b) = [int a - 1 .. int b - 1]
       \<and> get_lost_frames_from_camera_info [(''LostFrames'', JList [JStr ''1-2,4-5,7''])]
         = Inr [0, 1, 3, 4, 6]"
proof -
  have "get_lost_frames_from_camera_info d = Inr (concat (map span_indices spans))"
    using assms by (simp add: get_lost_frames_from_camera_info_def lost_frames_of_spans_text)
  moreover have "get_lost_frames_from_camera_info [(''LostFrames'', JList [JStr ''1-2,4-5,7''])]
         = Inr [0, 1, 3, 4, 6]"
    by (simp add: parse_eval)
  ultimately show ?thesis by simp
qed

theorem lost_frame_spans_expand_witness:
  "get_lost_frames_from_camera_info
     [(''FramesLostCount'', JInt 5), (''LostFrames'', JList [JStr ''1-2,4-5,7''])]
   = Inr [0, 1, 3, 4, 6]"
proof -
  define d where "d = [(''FramesLostCount'', JInt 5), (''LostFrames'', JList [JStr ''1-2,4-5,7''])]"
  have rendered: "spans_text [Range 1 2, Range 4 5, Single 7] = ''1-2,4-5,7''"
    by (simp add: decimal.simps digit_char_def)
  have h1: "get_video_info_data d = JObj d"
    by (simp add: d_def get_video_info_data_def)
  have h2: "\<not> py_eq_zero (map_of d ''FramesLostCount'')"
    by (simp add: d_def)
  have h3: "map_of d ''LostFrames'' =
            Some (JList (JStr (spans_text [Range 1 2, Range 4 5, Single 7]) # []))"
    unfolding rendered by (simp add: d_def)
  have h4: "[Range 1 2, Range 4 5, Single 7] \<noteq> []"
    by simp
  have h5: "list_all frame_numbers_fit [Range 1 2, Range 4 5, Single 7]"
    by simp
  from lost_frame_spans_expand [OF h1 h2 h3 h4 h5]
  have "get_lost_frames_from_camera_info d =
        Inr (concat (map span_indices [Range 1 2, Range 4 5, Single 7]))"
    by (rule conjunct1)
  then show ?thesis by (simp add: d_def upto_rec1)
qed

text \<open>
  C10. When \<^verbatim>\<open>FramesLostCount\<close> equals 0 the function returns the empty array whatever
  \<^verbatim>\<open>LostFrames\<close> holds. Otherwise a \<^verbatim>\<open>LostFrames\<close> that is absent or is not a list
  raises, and for a list the result is that of its first element alone: the elements after
  it do not change it.
\<close>

theorem lost_frames_reads_first_element_only:
  assumes "get_video_info_data d = JObj info"
  shows "(py_eq_zero (map_of info ''FramesLostCount'')
            \<longrightarrow> get_lost_frames_from_camera_info d = Inr [])
       \<and> (\<not> py_eq_zero (map_of info ''FramesLostCount'') \<and> map_of info ''LostFrames'' = None
            \<longrightarrow> get_lost_frames_from_camera_info d = Inl (KeyError ''LostFrames''))
       \<and> (\<not> py_eq_zero (map_of info ''FramesLostCount'') \<and> map_of info ''LostFrames'' = Some v
             \<and> (\<forall>l. v \<noteq> JList l)
            \<longrightarrow> get_lost_frames_from_camera_info d = Inl (AssertionError []))
       \<and> (\<not> py_eq_zero (map_of info ''FramesLostCount'')
             \<and> map_of info ''LostFrames'' = Some (JList (first # others))
            \<longrightarrow> get_lost_frames_from_camera_info d = lost_frames_of_first first
              \<and> get_lost_frames_from_camera_info d =
                  get_lost_frames_from_camera_info [(''LostFrames'', JList [first])])"
  using assms
  by (cases v) (auto simp: get_lost_frames_from_camera_info_def get_video_info_data_def)

theorem lost_frames_reads_first_element_only_witness:
  "get_lost_frames_from_camera_info
     [(''FramesLostCount'', JInt 0), (''LostFrames'', JStr ''no list'')] = Inr []
   \<and> get_lost_frames_from_camera_info
     [(''FramesLostCount'', JInt 2), (''LostFrames'', JList [JStr ''3,9'', JStr ''1-2''])]
     = Inr [2, 8]
   \<and> get_lost_frames_from_camera_info [(''FramesLostCount'', JInt 2)]
     = Inl (KeyError ''LostFrames'')
   \<and> get_lost_frames_from_camera_info
     [(''FramesLostCount'', JInt 2), (''LostFrames'', JStr ''3,9'')] = Inl (AssertionError [])"
proof -
  have one: "lost_frames_of_first (JStr ''3,9'') = Inr [2, 8]"
    by (simp add: parse_eval)
  show ?thesis
    using
      lost_frames_reads_first_element_only
        [of "[(''FramesLostCount'', JInt 0), (''LostFrames'', JStr ''no list'')]"
            "[(''FramesLostCount'', JInt 0), (''LostFrames'', JStr ''no list'')]"]
      lost_frames_reads_first_element_only
        [of "[(''FramesLostCount'', JInt 2), (''LostFrames'', JList [JStr ''3,9'', JStr ''1-2''])]"
            "[(''FramesLostCount'', JInt 2), (''LostFrames'', JList [JStr ''3,9'', JStr ''1-2''])]"
            _ "JStr ''3,9''" "[JStr ''1-2'']"]
      lost_frames_reads_first_element_only
        [of "[(''FramesLostCount'', JInt 2)]" "[(''FramesLostCount'', JInt 2)]"]
      lost_frames_reads_first_element_only
        [of "[(''FramesLostCount'', JInt 2), (''LostFrames'', JStr ''3,9'')]"
            "[(''FramesLostCount'', JInt 2), (''LostFrames'', JStr ''3,9'')]" "JStr ''3,9''"]
    by (simp add: get_video_info_data_def one)
qed

section \<open>Properties of the mapping of the sync lines\<close>

lemmas camera_name_eval =
  get_camera_name_def get_camera_name_on_sync_def names_def lower_def lower_char_def

lemma camera_names:
  "get_camera_name ''beh'' = Inr ''behavior''"
  "get_camera_name ''face'' = Inr ''face''"
  "get_camera_name ''eye'' = Inr ''eye''"
  "get_camera_name ''behavior'' = Inr ''behavior''"
  by (simp_all add: camera_name_eval)

lemma camera_names_on_sync_lines:
  "get_camera_name_on_sync ''beh_cam_exposing'' = Inr ''beh''"
  "get_camera_name_on_sync ''face_cam_exposing'' = Inr ''face''"
  "get_camera_name_on_sync ''eye_cam_exposing'' = Inr ''eye''"
  by (simp_all add: camera_name_eval)

lemma wired_starts: "get_start_times_on_sync wired_sync = Inr wired_start_times"
  by (simp add: get_start_times_on_sync_def wired_sync_def wired_start_times_def
      camera_names_on_sync_def)

lemma miswired_starts:
  "get_start_times_on_sync miswired_sync =
   Inr [(''beh_cam_exposing'', 1), (''beh_cam_frame_readout'', 1.5), (''face_cam_exposing'', 5),
        (''face_cam_frame_readout'', 5.5), (''eye_cam_exposing'', 3), (''eye_cam_frame_readout'', 3.5)]"
  by (simp add: get_start_times_on_sync_def miswired_sync_def camera_names_on_sync_def)

lemma wired_expected:
  "get_exposure_fingerprint_durations_from_jsons wired_jsons =
   Inr [(''beh_cam_exposing'', JInt 1), (''face_cam_exposing'', JInt 2), (''eye_cam_exposing'', JInt 3)]"
  by (simp add: get_exposure_fingerprint_durations_from_jsons_def fingerprint_duration_from_json_def
      camera_names_on_sync_def camera_names wired_jsons_def)

lemma wired_reports_expected:
  "get_exposure_fingerprint_durations_from_jsons wired_reports =
   Inr [(''beh_cam_exposing'', JInt 1), (''face_cam_exposing'', JInt 2), (''eye_cam_exposing'', JInt 3)]"
  by (simp add: get_exposure_fingerprint_durations_from_jsons_def fingerprint_duration_from_json_def
      camera_names_on_sync_def camera_names wired_reports_def wired_report_def)

lemma wired_actual:
  "get_exposure_fingerprint_durations_from_sync rounded_mean_ms wired_sync =
   Inr [(''beh_cam_exposing'', rounded_mean_ms [1.001, 2.001] [1, 2]),
        (''face_cam_exposing'', rounded_mean_ms [3.002, 4.002] [3, 4]),
        (''eye_cam_exposing'', rounded_mean_ms [5.003, 6.003] [5, 6])]"
  by (simp add: get_exposure_fingerprint_durations_from_sync_def fingerprint_duration_from_sync_def
      camera_names_on_sync_def wired_sync_def broadcastable_def Let_def)

lemma miswired_actual:
  "get_exposure_fingerprint_durations_from_sync rounded_mean_ms miswired_sync =
   Inr [(''beh_cam_exposing'', rounded_mean_ms [1.001, 2.001] [1, 2]),
        (''face_cam_exposing'', rounded_mean_ms [5.003, 6.003] [5, 6]),
        (''eye_cam_exposing'', rounded_mean_ms [3.002, 4.002] [3, 4])]"
  by (simp add: get_exposure_fingerprint_durations_from_sync_def fingerprint_duration_from_sync_def
      camera_names_on_sync_def miswired_sync_def broadcastable_def Let_def)

lemma wired_sorted:
  "lines_sorted_by_start_time wired_start_times =
   map PStr [''beh_cam_exposing'', ''beh_cam_frame_readout'', ''face_cam_exposing'',
             ''face_cam_frame_readout'', ''eye_cam_exposing'', ''eye_cam_frame_readout'']"
  by (simp add: lines_sorted_by_start_time_def wired_start_times_def)

text \<open>
  The tuple searched by the assertion holds the names of the lines, and the value looked
  up is a start time: the search fails on every input, so the function returns no mapping,
  and neither does \<^verbatim>\<open>get_video_frame_times\<close>, which calls it first.
\<close>

lemma index_of_float_in_names:
  "tuple_index (map (\<lambda>item. PStr (f item)) items) (PFloat t) =
   Inl (ValueError ''tuple.index(x): x not in tuple'')"
  by (induction items) simp_all

lemma check_readout_raises:
  "\<exists>e. check_readout_follows_exposing start_times (lines_sorted_by_start_time start_times')
          sync_camera_name = Inl e"
  by (simp add: check_readout_follows_exposing_def lines_sorted_by_start_time_def
      index_of_float_in_names split: option.splits)

lemma check_readout_raises_at:
  "map_of start_times (sync_camera_name @ ''_cam_exposing'') = Some t \<Longrightarrow>
   check_readout_follows_exposing start_times (lines_sorted_by_start_time start_times')
     sync_camera_name = Inl (ValueError ''tuple.index(x): x not in tuple'')"
  by (simp add: check_readout_follows_exposing_def lines_sorted_by_start_time_def
      index_of_float_in_names)

lemma resolve_lines_raises:
  "\<exists>e. resolve_lines start_times (lines_sorted_by_start_time start_times') expected actual mapping
          (sync_camera_name # rest) = Inl e"
proof (cases "assign_actual_line expected actual mapping sync_camera_name")
  case (Inl e)
  then show ?thesis by simp
next
  case (Inr mapping')
  obtain e where "check_readout_follows_exposing start_times
                    (lines_sorted_by_start_time start_times') sync_camera_name = Inl e"
    using check_readout_raises by blast
  with Inr show ?thesis by simp
qed

lemma mapping_never_returned:
  "\<exists>e. get_camera_sync_line_name_mapping rounded_mean_ms sync_data camera_to_json_data = Inl e"
proof -
  have names: "camera_names_on_sync = ''beh'' # [''face'', ''eye'']"
    by (simp add: camera_names_on_sync_def)
  show ?thesis
    unfolding get_camera_sync_line_name_mapping_def names
    using resolve_lines_raises
    by (auto split: sum.splits)
qed

lemma frame_times_never_returned:
  "\<exists>e. get_video_frame_times rounded_mean_ms sync_data camera_to_video_path camera_to_json_data
          frames_in_video apply_correction = Inl e"
  using mapping_never_returned [of rounded_mean_ms sync_data camera_to_json_data]
  by (auto simp: get_video_frame_times_def)

text \<open>
  The first half of a pass returns whatever the three measured durations are, when the
  configured duration of the camera is a number: the line it picks is one of the three.
\<close>

lemma first_min_by_least:
  "first_min_by key best xs \<in> set (best # xs) \<and>
   (\<forall>x \<in> set (best # xs). key (first_min_by key best xs) \<le> key x)"
proof (induction xs arbitrary: best)
  case Nil
  show ?case by simp
next
  case (Cons y ys)
  from Cons [of "if key y < key best then y else best"] show ?case
    by (auto split: if_splits)
qed

lemma assign_actual_line_returns:
  assumes "map_of expected (sync_camera_name @ ''_cam_exposing'') = Some v"
    and "json_number v = Inr nominal"
    and "get_camera_name sync_camera_name = Inr name"
  shows "\<exists>prefix. assign_actual_line expected
           [(''beh_cam_exposing'', d1), (''face_cam_exposing'', d2), (''eye_cam_exposing'', d3)]
           mapping sync_camera_name = Inr (AList.update name prefix mapping)"
proof -
  define key where "key = (\<lambda>item :: string \<times> int. \<bar>nominal - of_int (snd item)\<bar>)"
  define chosen where "chosen = first_min_by key (''beh_cam_exposing'', d1)
                                  [(''face_cam_exposing'', d2), (''eye_cam_exposing'', d3)]"
  have line: "actual_line_for v
                [(''beh_cam_exposing'', d1), (''face_cam_exposing'', d2), (''eye_cam_exposing'', d3)]
              = Inr (fst chosen)"
    using assms(2) by (simp add: actual_line_for_def py_min_by_def chosen_def key_def)
  from first_min_by_least [of key "(''beh_cam_exposing'', d1)"
      "[(''face_cam_exposing'', d2), (''eye_cam_exposing'', d3)]"]
  have "chosen = (''beh_cam_exposing'', d1) \<or> chosen = (''face_cam_exposing'', d2)
        \<or> chosen = (''eye_cam_exposing'', d3)"
    by (auto simp: chosen_def)
  then have "\<exists>prefix. get_camera_name_on_sync (fst chosen) = Inr prefix"
    using camera_names_on_sync_lines by (elim disjE) simp_all
  then obtain prefix where "get_camera_name_on_sync (fst chosen) = Inr prefix"
    by blast
  with assms(1,3) line show ?thesis
    by (intro exI [of _ prefix]) (simp add: assign_actual_line_def)
qed

lemma first_pass_raises:
  assumes "get_start_times_on_sync sync_data = Inr start_times"
    and "map_of start_times ''beh_cam_exposing'' = Some t"
    and "get_exposure_fingerprint_durations_from_jsons camera_to_json_data = Inr expected"
    and "map_of expected ''beh_cam_exposing'' = Some v"
    and "json_number v = Inr nominal"
    and "get_exposure_fingerprint_durations_from_sync rounded_mean_ms sync_data =
         Inr [(''beh_cam_exposing'', d1), (''face_cam_exposing'', d2), (''eye_cam_exposing'', d3)]"
  shows "get_camera_sync_line_name_mapping rounded_mean_ms sync_data camera_to_json_data =
         Inl (ValueError ''tuple.index(x): x not in tuple'')"
proof -
  from assign_actual_line_returns [of expected "''beh''" v nominal "''behavior''" d1 d2 d3 "[]"]
    assms(4,5) camera_names(1)
  obtain prefix where assigned:
    "assign_actual_line expected
       [(''beh_cam_exposing'', d1), (''face_cam_exposing'', d2), (''eye_cam_exposing'', d3)]
       [] ''beh'' = Inr (AList.update ''behavior'' prefix [])"
    by auto
  have checked: "check_readout_follows_exposing start_times
      (lines_sorted_by_start_time start_times) ''beh''
      = Inl (ValueError ''tuple.index(x): x not in tuple'')"
    using assms(2) by (intro check_readout_raises_at [of _ _ t]) simp
  show ?thesis
    by (simp add: get_camera_sync_line_name_mapping_def assms(1,3,6) camera_names_on_sync_def
        assigned checked)
qed

lemma wired_mapping_raises:
  assumes "get_exposure_fingerprint_durations_from_jsons camera_to_json_data =
           Inr [(''beh_cam_exposing'', JInt 1), (''face_cam_exposing'', JInt 2),
                (''eye_cam_exposing'', JInt 3)]"
  shows "get_camera_sync_line_name_mapping rounded_mean_ms wired_sync camera_to_json_data =
         Inl (ValueError ''tuple.index(x): x not in tuple'')"
  by (rule first_pass_raises [where v = "JInt 1" and nominal = 1 and t = 1,
        OF wired_starts _ assms _ _ wired_actual])
    (simp_all add: wired_start_times_def)

text \<open>
  C2. On the recording \<^const>\<open>wired_sync\<close> the readout line of each camera stands right
  after its exposing line in the order of the first rising edges, so the assumption on the
  wiring holds; yet the function does not return a mapping. The assertion looks up a start
  time, a float, in the tuple of the names of the lines, and \<^verbatim>\<open>tuple.index\<close> raises
  \<^verbatim>\<open>ValueError\<close> in the first pass of the loop.
\<close>

theorem wired_recording_raises:
  "get_start_times_on_sync wired_sync = Inr wired_start_times
   \<and> readout_follows_exposing wired_start_times ''beh''
   \<and> readout_follows_exposing wired_start_times ''face''
   \<and> readout_follows_exposing wired_start_times ''eye''
   \<and> get_camera_sync_line_name_mapping rounded_mean_ms wired_sync wired_jsons =
       Inl (ValueError ''tuple.index(x): x not in tuple'')"
proof -
  have follows:
    "readout_follows_exposing wired_start_times ''beh''"
    "readout_follows_exposing wired_start_times ''face''"
    "readout_follows_exposing wired_start_times ''eye''"
    by (simp_all add: readout_follows_exposing_def wired_sorted)
  from follows wired_starts wired_mapping_raises [OF wired_expected] show ?thesis by simp
qed

text \<open>
  C4. On the recording \<^const>\<open>miswired_sync\<close> the lines named after the face camera
  carry the pulses of 3 milliseconds and the lines named after the eye camera those of 2
  milliseconds, while the metadata configure 2 milliseconds for the face camera and 3 for
  the eye camera: the mapping to return assigns the eye lines to the face camera and the
  face lines to the eye camera. The function assigns no line to the face and to the eye
  camera and returns no mapping: whatever the rounded means of the pulses are, the
  assertion of the first pass (line 399) looks up a start time in the tuple of the names
  of the lines and raises \<^verbatim>\<open>ValueError\<close>.
\<close>

theorem miswired_recording_raises:
  "get_camera_sync_line_name_mapping rounded_mean_ms miswired_sync wired_jsons =
     Inl (ValueError ''tuple.index(x): x not in tuple'')"
  by (rule first_pass_raises [where v = "JInt 1" and nominal = 1 and t = 1,
        OF miswired_starts _ wired_expected _ _ miswired_actual])
    simp_all

section \<open>Properties of the frame times\<close>

lemma wired_exposing_times:
  "get_cam_exposing_times_on_sync wired_sync =
   Inr [(''behavior'', [1, 2]), (''face'', [3, 4]), (''eye'', [5, 6])]"
  by (simp add: get_cam_exposing_times_on_sync_def get_cam_line_times_on_sync_def wired_sync_def
      camera_name_eval)

lemma wired_lost_frames: "get_lost_frames_from_camera_info (wired_report exposure_time) = Inr []"
  by (simp add: get_lost_frames_from_camera_info_def get_video_info_data_def wired_report_def)

lemma wired_frame_times_raise:
  "get_video_frame_times rounded_mean_ms wired_sync wired_videos wired_reports wired_frames
     apply_correction = Inl (ValueError ''tuple.index(x): x not in tuple'')"
  by (simp add: get_video_frame_times_def wired_mapping_raises [OF wired_reports_expected])

lemmas wired_loop_eval =
  wired_videos_def wired_reports_def wired_frames_def wired_lost_frames camera_frame_times_def
  remove_lost_frame_times_def Let_def

text \<open>
  C1. For the session \<^const>\<open>wired_dataset\<close>, with correction enabled, the function is to
  return for each of the three videos an array of 30 entries: the entry of the metadata
  frame, the two exposures, and 27 \<^verbatim>\<open>nan\<close> entries appended to reach the frame count of
  the video. The function returns no array: it raises \<^verbatim>\<open>ValueError\<close> in
  \<^verbatim>\<open>get_camera_sync_line_name_mapping\<close>, which it calls before the loop (the assertion
  of line 399). The loop of lines 456 to 491, run on the exposing times of the recording,
  gives the arrays of 30 entries.
\<close>

theorem wired_session_returns_no_frame_times:
  "get_video_frame_times rounded_mean_ms wired_sync wired_videos wired_reports wired_frames True
     = Inl (ValueError ''tuple.index(x): x not in tuple'')
   \<and> get_cam_exposing_times_on_sync wired_sync =
       Inr [(''behavior'', [1, 2]), (''face'', [3, 4]), (''eye'', [5, 6])]
   \<and> frame_times_loop True wired_frames wired_videos wired_reports []
         [(''behavior'', [1, 2]), (''face'', [3, 4]), (''eye'', [5, 6])] =
       Inr [(''Behavior_20230803T120430'', [NaN, Sec 1, Sec 2] @ replicate 27 NaN),
            (''Face_20230803T120430'', [NaN, Sec 3, Sec 4] @ replicate 27 NaN),
            (''Eye_20230803T120430'', [NaN, Sec 5, Sec 6] @ replicate 27 NaN)]
   \<and> length ([NaN, Sec 1, Sec 2] @ replicate 27 NaN) = 30"
proof -
  have "frame_times_loop True wired_frames wired_videos wired_reports []
         [(''behavior'', [1, 2]), (''face'', [3, 4]), (''eye'', [5, 6])] =
       Inr [(''Behavior_20230803T120430'', [NaN, Sec 1, Sec 2] @ replicate 27 NaN),
            (''Face_20230803T120430'', [NaN, Sec 3, Sec 4] @ replicate 27 NaN),
            (''Eye_20230803T120430'', [NaN, Sec 5, Sec 6] @ replicate 27 NaN)]"
    by (simp add: wired_loop_eval)
  with wired_frame_times_raise [of rounded_mean_ms True] wired_exposing_times show ?thesis
    by simp
qed

text \<open>
  C6. For the session \<^const>\<open>wired_dataset\<close>, with or without correction, the function is to return for
  each video an array whose entry at index 0 is \<^verbatim>\<open>nan\<close>, the entry of the metadata
  frame. The function returns no array: the call of
  \<^verbatim>\<open>get_camera_sync_line_name_mapping\<close> before the loop raises \<^verbatim>\<open>ValueError\<close> at
  the assertion of line 399. The loop of lines 456 to 491, run without correction on the
  exposing times of the recording, gives for each video the \<^verbatim>\<open>nan\<close> entry followed
  by the two exposures.
\<close>

theorem wired_session_returns_no_first_frame_time:
  "get_video_frame_times rounded_mean_ms wired_sync wired_videos wired_reports wired_frames
     apply_correction = Inl (ValueError ''tuple.index(x): x not in tuple'')
   \<and> frame_times_loop False wired_frames wired_videos wired_reports []
         [(''behavior'', [1, 2]), (''face'', [3, 4]), (''eye'', [5, 6])] =
       Inr [(''Behavior_20230803T120430'', [NaN, Sec 1, Sec 2]),
            (''Face_20230803T120430'', [NaN, Sec 3, Sec 4]),
            (''Eye_20230803T120430'', [NaN, Sec 5, Sec 6])]"
proof -
  have "frame_times_loop False wired_frames wired_videos wired_reports []
         [(''behavior'', [1, 2]), (''face'', [3, 4]), (''eye'', [5, 6])] =
       Inr [(''Behavior_20230803T120430'', [NaN, Sec 1, Sec 2]),
            (''Face_20230803T120430'', [NaN, Sec 3, Sec 4]),
            (''Eye_20230803T120430'', [NaN, Sec 5, Sec 6])]"
    by (simp add: wired_loop_eval)
  with wired_frame_times_raise [of rounded_mean_ms apply_correction] show ?thesis
    by simp
qed

section \<open>Properties of the validation\<close>

lemma wired_transfer_times:
  "get_cam_transfer_times_on_sync wired_sync =
   Inr [(''behavior'', [1.5, 2.5]), (''face'', [3.5, 4.5]), (''eye'', [5.5, 6.5])]"
  by (simp add: get_cam_transfer_times_on_sync_def get_cam_line_times_on_sync_def wired_sync_def
      camera_name_eval)

lemma wired_exposing_falling_edge_times:
  "get_cam_exposing_falling_edge_times_on_sync wired_sync =
   Inr [(''behavior'', [1.001, 2.001]), (''face'', [3.002, 4.002]), (''eye'', [5.003, 6.003])]"
  by (simp add: get_cam_exposing_falling_edge_times_on_sync_def get_cam_line_times_on_sync_def
      wired_sync_def camera_name_eval)

text \<open>
  Called with the video of one camera, \<^verbatim>\<open>get_video_frame_times\<close> loads the metadata of
  that camera alone, and the configured durations are read for all three cameras (line
  363): the call raises \<^verbatim>\<open>KeyError\<close> for the first camera that has no metadata.
\<close>

lemma single_video_call_raises:
  assumes "map_of camera_info ''CustomInitialExposureTime'' = Some v"
  shows "get_video_frame_times rounded_mean_ms wired_sync [(''behavior'', video_path)]
           [(''behavior'', camera_info)] frames_in_video apply_correction = Inl (KeyError ''face'')"
  using assms
  by (simp add: get_video_frame_times_def get_camera_sync_line_name_mapping_def wired_starts
      get_exposure_fingerprint_durations_from_jsons_def fingerprint_duration_from_json_def
      camera_names_on_sync_def camera_names)

lemma lookup_first: "lookup ((k, v) # rest) k err = Inr v"
  by (simp add: lookup_def)

lemma wired_augmented_camera_info:
  "augmented_camera_info rounded_mean_ms wired_dataset = Inl (KeyError ''face'')"
proof -
  have report: "lookup wired_reports ''behavior'' KeyError = Inr (wired_report 1)"
    by (simp add: lookup_def wired_reports_def)
  have frames_lost: "lookup (wired_report 1) ''FramesLostCount'' KeyError = Inr (JInt 0)"
    by (simp add: lookup_def wired_report_def)
  have call: "get_video_frame_times rounded_mean_ms wired_sync
                [(''behavior'', ''Behavior_20230803T120430'')] [(''behavior'', wired_report 1)]
                wired_frames False = Inl (KeyError ''face'')"
    by (rule single_video_call_raises [of _ "JInt 1"]) (simp add: wired_report_def)
  have first_camera: "augment_camera rounded_mean_ms wired_dataset
          [(''behavior'', [1, 2]), (''face'', [3, 4]), (''eye'', [5, 6])]
          [(''behavior'', [1.5, 2.5]), (''face'', [3.5, 4.5]), (''eye'', [5.5, 6.5])]
          [(''behavior'', [1.001, 2.001]), (''face'', [3.002, 4.002]), (''eye'', [5.003, 6.003])]
          (''behavior'', ''Behavior_20230803T120430'') = Inl (KeyError ''face'')"
    by (simp add: augment_camera_def wired_dataset_def report frames_lost lookup_first
        broadcastable_def call)
  have sync: "ds_sync_data wired_dataset = wired_sync"
    by (simp add: wired_dataset_def)
  have paths: "ds_video_paths wired_dataset =
      (''behavior'', ''Behavior_20230803T120430'')
      # [(''face'', ''Face_20230803T120430''), (''eye'', ''Eye_20230803T120430'')]"
    by (simp add: wired_dataset_def wired_videos_def)
  from first_camera show ?thesis
    by (simp add: augmented_camera_info_def sync paths wired_exposing_times wired_transfer_times
        wired_exposing_falling_edge_times)
qed

lemma wired_dataset_frame_times:
  "dataset_frame_times rounded_mean_ms wired_dataset =
   Inl (ValueError ''tuple.index(x): x not in tuple'')"
  by (simp add: dataset_frame_times_def wired_dataset_def wired_frame_times_raise)

lemma validate_never_returns:
  assumes "ds_video_paths ds \<noteq> []"
  shows "\<exists>e. validate rounded_mean_ms ds = Inl e"
proof -
  from assms obtain camera video_path rest where
    paths: "ds_video_paths ds = (camera, video_path) # rest"
    by (cases "ds_video_paths ds") auto
  obtain e where "dataset_frame_times rounded_mean_ms ds = Inl e"
    using frame_times_never_returned
      [of rounded_mean_ms "ds_sync_data ds" "ds_video_paths ds" "ds_info_data ds"
          "ds_frames_in_video ds" True]
    by (auto simp: dataset_frame_times_def)
  then show ?thesis
    by (simp add: validate_def paths split: sum.splits)
qed

text \<open>
  C9. For the session \<^const>\<open>wired_dataset\<close> the difference between the frame count
  expected from sync and the frame count of each video is 3 - 30, of absolute value 27,
  and the uncorrected frame times of each camera are 3, as many as are expected from
  sync: check 7 is to be waived, every other check is met, and \<^verbatim>\<open>validate\<close> is to raise
  nothing. It raises \<^verbatim>\<open>KeyError\<close> before the first check: the property
  \<^verbatim>\<open>augmented_camera_info\<close>, read at line 265, calls \<^verbatim>\<open>get_video_frame_times\<close> with
  the video of one camera, which raises at line 363; and the property \<^verbatim>\<open>frame_times\<close>,
  read at line 266, raises by the assertion of line 399.
\<close>

theorem wired_session_validation_raises:
  "validate rounded_mean_ms wired_dataset = Inl (KeyError ''face'')
   \<and> augmented_camera_info rounded_mean_ms wired_dataset = Inl (KeyError ''face'')
   \<and> dataset_frame_times rounded_mean_ms wired_dataset =
       Inl (ValueError ''tuple.index(x): x not in tuple'')"
proof -
  have paths: "ds_video_paths wired_dataset =
      (''behavior'', ''Behavior_20230803T120430'')
      # [(''face'', ''Face_20230803T120430''), (''eye'', ''Eye_20230803T120430'')]"
    by (simp add: wired_dataset_def wired_videos_def)
  have video: "lookup (ds_video_data wired_dataset) ''behavior'' KeyError = Inr wired_video"
    by (simp add: wired_dataset_def lookup_def)
  have report: "lookup (ds_info_data wired_dataset) ''behavior'' KeyError = Inr (wired_report 1)"
    by (simp add: wired_dataset_def lookup_def wired_reports_def)
  have "validate rounded_mean_ms wired_dataset = Inl (KeyError ''face'')"
    by (simp add: validate_def paths video report wired_augmented_camera_info)
  with wired_augmented_camera_info wired_dataset_frame_times show ?thesis
    by simp
qed

section \<open>Properties of the barcode\<close>

lemmas barcode_eval =
  barcode_values_def exponent_values_def norm_mean_def value_image_def columns_def np_mean_def
  group_size_def group_separator_def num_groups_def num_values_per_group_def value_size_def
  border_def py_round_def Let_def upt_conv_Cons

lemmas strip_eval = black_strip_def white_strip_def white_frame_def strip_row_def group_pixels_def

lemma floor_minus_one: "\<lfloor>- 1 :: real\<rfloor> = - 1"
  by (simp add: floor_eq_iff)

lemma black_values: "barcode_values black_strip = [Some (- 1), Some (- 1), Some (- 1), Some (- 1), Some (- 1), Some (- 1), Some (- 1), Some (- 1), Some (- 1), Some (- 1), Some (- 1), Some (- 1), Some (- 1), Some (- 1), Some (- 1), Some (- 1), Some (- 1), Some (- 1), Some (- 1), Some (- 1)]"
  by (simp add: strip_eval barcode_eval floor_minus_one)

lemma white_values: "barcode_values white_strip = [Some 1, Some 1, Some 1, Some 1, Some 1, Some 1, Some 1, Some 1, Some 1, Some 1, Some 1, Some 1, Some 1, Some 1, Some 1, Some 1, Some 1, Some 1, Some 1, Some 1]"
  by (simp add: strip_eval barcode_eval)

lemma white_mean: "np_mean white_strip = Some (6764 / 33)"
  by (simp add: strip_eval np_mean_def)

lemma white_round: "py_round (6764 / 33) = 205"
  by (simp add: py_round_def Let_def)

lemma frame_values: "barcode_values white_frame = [Some 1, Some 1, Some 1, Some 1, Some 1, Some 1, Some 1, Some 1, Some 1, Some 1, Some 1, Some 1, Some 1, Some 1, Some 1, Some 1, Some 1, Some 1, Some 1, Some 1]"
  by (simp add: strip_eval barcode_eval)

lemma frame_mean: "np_mean white_frame = Some 255"
  by (simp add: strip_eval np_mean_def)

lemma length_barcode_values: "length (barcode_values img) = 20"
  by (simp add: barcode_values_def num_groups_def num_values_per_group_def upt_conv_Cons)

lemma first_barcode_value:
  "\<exists>rest. barcode_values img = norm_mean (value_image img 0 0) # rest"
  by (simp add: barcode_values_def num_groups_def num_values_per_group_def upt_conv_Cons)

lemma columns_not_empty: "concat (columns start stop img) \<noteq> [] \<Longrightarrow> concat img \<noteq> []"
proof (rule contrapos_nn)
  assume "concat img = []"
  then have "\<forall>row \<in> set img. row = []" by simp
  then show "concat (columns start stop img) = []" by (auto simp: columns_def)
qed

lemma white_cell_has_pixels:
  assumes "list_all (\<lambda>x. x = Some 1) (exponent_values img)"
  shows "\<exists>m. np_mean img = Some m"
proof -
  obtain rest where "barcode_values img = norm_mean (value_image img 0 0) # rest"
    using first_barcode_value by blast
  with assms have "norm_mean (value_image img 0 0) = Some 1"
    by (simp add: exponent_values_def list_all_iff)
  then have "np_mean (value_image img 0 0) \<noteq> None"
    by (auto simp: norm_mean_def split: option.splits)
  then have "concat (value_image img 0 0) \<noteq> []"
    by (auto simp: np_mean_def split: if_splits)
  then have "concat img \<noteq> []"
    unfolding value_image_def Let_def by (rule columns_not_empty [OF columns_not_empty])
  then show ?thesis by (simp add: np_mean_def)
qed

lemma bits_value_fold:
  "foldl (\<lambda>v (exponent, exponent_value). if exponent_value = Some 1 then v + 2 ^ exponent else v)
         acc (enumerate n evs) =
   acc + sum_list (map (\<lambda>(exponent, exponent_value).
                          if exponent_value = Some (1::int) then 2 ^ exponent else (0::int))
                       (enumerate n evs))"
  by (induction evs arbitrary: acc n) simp_all

lemma bits_value_sum:
  "bits_value evs =
   sum_list (map (\<lambda>(exponent, exponent_value). if exponent_value = Some 1 then 2 ^ exponent else 0)
                 (enumerate 0 evs))"
  by (simp add: bits_value_def bits_value_fold)

lemma bits_value_no_white:
  assumes "list_all (\<lambda>x. x \<noteq> Some 1) evs"
  shows "bits_value evs = 0"
proof -
  have "sum_list (map (\<lambda>(exponent, exponent_value).
                if exponent_value = Some (1::int) then 2 ^ exponent else (0::int))
              (enumerate n evs)) = 0" for n
    using assms by (induction evs arbitrary: n) simp_all
  then show ?thesis by (simp add: bits_value_sum)
qed

lemma all_white_sum:
  "sum_list (map (\<lambda>(exponent, exponent_value).
                if exponent_value = Some (1::int) then 2 ^ exponent else (0::int))
              (enumerate k (replicate n (Some 1)))) = 2 ^ (k + n) - 2 ^ k"
  by (induction n arbitrary: k) simp_all

lemma bits_value_all_white:
  assumes "list_all (\<lambda>x. x = Some 1) evs"
  shows "bits_value evs = 2 ^ length evs - 1"
proof -
  from assms have "evs = replicate (length evs) (Some 1)"
    by (induction evs) simp_all
  then have "bits_value evs = bits_value (replicate (length evs) (Some 1))"
    by simp
  also have "\<dots> = 2 ^ length evs - 1"
    using all_white_sum [of 0 "length evs"] by (simp add: bits_value_sum)
  finally show ?thesis .
qed

text \<open>
  C7, as amended. \<^verbatim>\<open>get_barcode_value\<close> always returns a value. It returns 0 by the
  classification as metadata frame if and only if all 20 cells read white and the rounded
  mean of the whole strip exceeds 250. In every other case the value is the sum of
  \<open>2\<^sup>e\<close> over the exponents \<open>e\<close> whose cell, in the reversed sequence of the cells, reads
  white: an all-white strip whose rounded mean does not exceed 250 gives \<open>2\<^sup>2\<^sup>0 - 1\<close>, and
  an all-black strip gives 0 by this sum, the classification not holding for it.
\<close>

theorem barcode_value_cases:
  "(\<exists>v. get_barcode_value img = Inr v)
   \<and> length (exponent_values img) = 20
   \<and> (metadata_frame_test img = Inr True \<longleftrightarrow>
        list_all (\<lambda>x. x = Some 1) (exponent_values img)
        \<and> (\<exists>m. np_mean img = Some m \<and> 250 < py_round m))
   \<and> (metadata_frame_test img = Inr True \<longrightarrow> get_barcode_value img = Inr 0)
   \<and> (metadata_frame_test img \<noteq> Inr True \<longrightarrow>
        get_barcode_value img =
          Inr (sum_list (map (\<lambda>(exponent, exponent_value).
                                if exponent_value = Some 1 then 2 ^ exponent else 0)
                             (enumerate 0 (rev (barcode_values img))))))
   \<and> (list_all (\<lambda>x. x = Some 1) (exponent_values img)
        \<and> (\<forall>m. np_mean img = Some m \<longrightarrow> py_round m \<le> 250)
        \<longrightarrow> get_barcode_value img = Inr (2 ^ 20 - 1))
   \<and> (list_all (\<lambda>x. x = Some (- 1)) (exponent_values img)
        \<longrightarrow> metadata_frame_test img = Inr False \<and> get_barcode_value img = Inr 0)"
proof -
  have len: "length (exponent_values img) = 20"
    by (simp add: exponent_values_def length_barcode_values)
  have test: "metadata_frame_test img =
      Inr (list_all (\<lambda>x. x = Some 1) (exponent_values img)
           \<and> (\<exists>m. np_mean img = Some m \<and> 250 < py_round m))"
  proof (cases "list_all (\<lambda>x. x = Some 1) (exponent_values img)")
    case True
    with white_cell_has_pixels [OF True] show ?thesis
      by (auto simp: metadata_frame_test_def)
  next
    case False
    then show ?thesis by (simp add: metadata_frame_test_def)
  qed
  have returned: "get_barcode_value img =
      Inr (if metadata_frame_test img = Inr True then 0 else bits_value (exponent_values img))"
    by (auto simp: get_barcode_value_def test split: bool.splits)
  have white: "get_barcode_value img = Inr (2 ^ 20 - 1)"
    if "list_all (\<lambda>x. x = Some 1) (exponent_values img)
        \<and> (\<forall>m. np_mean img = Some m \<longrightarrow> py_round m \<le> 250)"
  proof -
    from that have "metadata_frame_test img = Inr False"
      by (auto simp: test)
    with that bits_value_all_white [of "exponent_values img"] show ?thesis
      by (simp add: returned len)
  qed
  have black: "metadata_frame_test img = Inr False \<and> get_barcode_value img = Inr 0"
    if "list_all (\<lambda>x. x = Some (- 1)) (exponent_values img)"
  proof -
    from that have none_white: "list_all (\<lambda>x. x \<noteq> Some 1) (exponent_values img)"
      by (auto simp: list_all_iff)
    have "exponent_values img \<noteq> []"
      using len by auto
    with none_white have "\<not> list_all (\<lambda>x. x = Some 1) (exponent_values img)"
      by (cases "exponent_values img") auto
    then have "metadata_frame_test img = Inr False"
      by (simp add: test)
    with bits_value_no_white [OF none_white] show ?thesis
      by (simp add: returned)
  qed
  show ?thesis
  proof (intro conjI impI)
    show "\<exists>v. get_barcode_value img = Inr v"
      by (simp add: returned)
    show "length (exponent_values img) = 20"
      by (rule len)
    show "metadata_frame_test img = Inr True \<longleftrightarrow>
        list_all (\<lambda>x. x = Some 1) (exponent_values img)
        \<and> (\<exists>m. np_mean img = Some m \<and> 250 < py_round m)"
      by (simp add: test)
  next
    assume "metadata_frame_test img = Inr True"
    then show "get_barcode_value img = Inr 0"
      by (simp add: returned)
  next
    assume "metadata_frame_test img \<noteq> Inr True"
    then show "get_barcode_value img =
          Inr (sum_list (map (\<lambda>(exponent, exponent_value).
                                if exponent_value = Some 1 then 2 ^ exponent else 0)
                             (enumerate 0 (rev (barcode_values img)))))"
      by (simp add: returned bits_value_sum exponent_values_def)
  next
    assume "list_all (\<lambda>x. x = Some 1) (exponent_values img)
        \<and> (\<forall>m. np_mean img = Some m \<longrightarrow> py_round m \<le> 250)"
    then show "get_barcode_value img = Inr (2 ^ 20 - 1)"
      by (rule white)
  next
    assume "list_all (\<lambda>x. x = Some (- 1)) (exponent_values img)"
    from black [OF this] show "metadata_frame_test img = Inr False"
      by (rule conjunct1)
  next
    assume "list_all (\<lambda>x. x = Some (- 1)) (exponent_values img)"
    from black [OF this] show "get_barcode_value img = Inr 0"
      by (rule conjunct2)
  qed
qed

theorem barcode_value_cases_witness:
  "get_barcode_value white_strip = Inr 1048575
   \<and> get_barcode_value white_frame = Inr 0
   \<and> get_barcode_value black_strip = Inr 0"
proof -
  note cases = barcode_value_cases [THEN conjunct2, THEN conjunct2]
  have "metadata_frame_test white_frame = Inr True"
    using cases [of white_frame, THEN conjunct1]
    by (simp add: exponent_values_def frame_values frame_mean py_round_def Let_def)
  with cases [of white_frame, THEN conjunct2, THEN conjunct1]
  have frame: "get_barcode_value white_frame = Inr 0"
    by simp
  have below: "\<forall>m. np_mean white_strip = Some m \<longrightarrow> py_round m \<le> 250"
  proof (intro allI impI)
    fix m
    assume "np_mean white_strip = Some m"
    then have m: "m = 6764 / 33"
      unfolding white_mean by (simp only: option.inject)
    show "py_round m \<le> 250"
      unfolding m white_round by simp
  qed
  have "list_all (\<lambda>x. x = Some 1) (exponent_values white_strip)"
    by (simp add: exponent_values_def white_values)
  with below have strip: "get_barcode_value white_strip = Inr 1048575"
    using cases [of white_strip, THEN conjunct2, THEN conjunct2, THEN conjunct2, THEN conjunct1]
    by simp
  have black: "get_barcode_value black_strip = Inr 0"
    using cases [of black_strip, THEN conjunct2, THEN conjunct2, THEN conjunct2, THEN conjunct2]
    by (simp add: exponent_values_def black_values)
  from strip frame black show ?thesis by simp
qed

text \<open>
  An all-black strip with grey borders decodes to 0 although the test for the metadata
  frame is false for it.
\<close>

theorem black_strip_decodes_to_zero_without_heuristic:
  "list_all (\<lambda>x. x = Some (- 1)) (exponent_values black_strip)
   \<and> get_barcode_value black_strip = Inr 0
   \<and> metadata_frame_test black_strip = Inr False"
  by (simp add: get_barcode_value_def metadata_frame_test_def exponent_values_def black_values
      bits_value_def)

section \<open>Properties of the frame number read from the barcode\<close>

lemma traverse_error:
  "traverse f xs = Inl e \<Longrightarrow> \<exists>x \<in> set xs. f x = Inl e"
  by (induction xs arbitrary: e) (auto split: sum.splits)

lemma int_literal_error:
  "int_literal body = Inl e \<Longrightarrow> e = invalid_literal \<or> e = exceeds_limit"
  by (auto simp: int_literal_def Let_def split: option.splits if_splits)

lemma py_int_error: "py_int s = Inl e \<Longrightarrow> e = invalid_literal \<or> e = exceeds_limit"
  by (auto simp: py_int_def dest: int_literal_error split: list.splits if_splits sum.splits)

lemma py_int_of_json_error:
  "py_int_of_json v = Inl e \<Longrightarrow> e = invalid_literal \<or> e = exceeds_limit \<or> e = TypeError"
  by (cases v) (auto dest: py_int_error)

lemma coordinate_item_error:
  assumes "(case kv of (k, v) \<Rightarrow>
              (case py_int_of_json v of Inl e \<Rightarrow> Inl e | Inr i \<Rightarrow> Inr (k, i))) = Inl e"
  shows "e = invalid_literal \<or> e = exceeds_limit \<or> e = TypeError"
proof (cases kv)
  case (Pair k v)
  with assms have "py_int_of_json v = Inl e"
    by (cases "py_int_of_json v") simp_all
  then show ?thesis by (rule py_int_of_json_error)
qed

lemma coordinate_items_error:
  assumes "traverse (\<lambda>(k, v). (case py_int_of_json v of Inl e \<Rightarrow> Inl e | Inr i \<Rightarrow> Inr (k, i)))
             items = Inl e"
  shows "e = invalid_literal \<or> e = exceeds_limit \<or> e = TypeError"
proof -
  from traverse_error [OF assms] show ?thesis
    by (elim bexE) (rule coordinate_item_error)
qed

lemma coordinates_error:
  assumes "get_barcode_image_coordinates video_info = Inl e"
  shows "e = AttributeError \<or> e = invalid_literal \<or> e = exceeds_limit \<or> e = TypeError"
proof (cases "map_of video_info ''BarcodeCoordinates''")
  case None
  with assms coordinate_items_error [of default_coordinates e] show ?thesis
    by (simp add: get_barcode_image_coordinates_def)
next
  case (Some given)
  show ?thesis
  proof (cases given)
    case (JObj items)
    with Some assms coordinate_items_error [of items e] show ?thesis
      by (simp add: get_barcode_image_coordinates_def)
  qed (use Some assms in \<open>simp_all add: get_barcode_image_coordinates_def\<close>)
qed

lemma barcode_value_returned: "\<exists>v. get_barcode_value img = Inr v"
proof (cases "list_all (\<lambda>x. x = Some 1) (exponent_values img)")
  case True
  with white_cell_has_pixels [OF True] show ?thesis
    by (auto simp: get_barcode_value_def metadata_frame_test_def split: bool.splits)
next
  case False
  then show ?thesis
    by (simp add: get_barcode_value_def metadata_frame_test_def)
qed

lemma barcode_image_error:
  "get_barcode_image frm coordinates = Inl e \<Longrightarrow> (\<exists>k. e = KeyError k) \<or> e = TypeError"
  by (auto simp: get_barcode_image_def coordinate_def split: sum.splits option.splits)

lemma value_from_frame_error:
  assumes "get_barcode_value_from_frame video_data frame_number coordinates = Inl e"
  shows "(\<exists>k. e = KeyError k) \<or> e = TypeError \<or> e = frame_number_assertion"
proof (cases "get_barcode_image (video_data frame_number) coordinates")
  case (Inl e')
  with assms barcode_image_error [OF Inl] show ?thesis
    by (auto simp: get_barcode_value_from_frame_def)
next
  case (Inr cropped)
  obtain v where "get_barcode_value (map (map fst) cropped) = Inr v"
    using barcode_value_returned by blast
  with Inr assms show ?thesis
    by (auto simp: get_barcode_value_from_frame_def split: if_splits)
qed

text \<open>
  C8, as amended. With \<open>video_info\<close> the metadata of the video,
  \<^verbatim>\<open>get_frame_number_from_barcode\<close> raises the error "FrameID imprint not enabled in
  video" if and only if the value of the imprint flag (\<^verbatim>\<open>False\<close> when absent) is not
  the string \<^verbatim>\<open>"true"\<close>: for that string it goes on to read the coordinates and to decode
  the requested frame, and for every other value it fails whatever the video holds.
\<close>

theorem imprint_flag_must_be_string_true:
  assumes "get_video_info_data d = JObj video_info"
  shows "(get_frame_number_from_barcode video_data d frame_number = Inl imprint_not_enabled
            \<longleftrightarrow> imprint_flag video_info \<noteq> JStr ''true'')
       \<and> (imprint_flag video_info = JStr ''true''
            \<longrightarrow> get_frame_number_from_barcode video_data d frame_number =
                (case get_barcode_image_coordinates video_info of
                   Inl e \<Rightarrow> Inl e
                 | Inr coordinates \<Rightarrow>
                     get_barcode_value_from_frame video_data frame_number coordinates))
       \<and> (imprint_flag video_info \<noteq> JStr ''true''
            \<longrightarrow> (\<forall>other_video. get_frame_number_from_barcode other_video d frame_number =
                     Inl imprint_not_enabled))"
proof (cases "imprint_flag video_info = JStr ''true''")
  case False
  with assms show ?thesis
    by (simp add: get_frame_number_from_barcode_def)
next
  case True
  have decode: "get_frame_number_from_barcode video_data d frame_number =
                (case get_barcode_image_coordinates video_info of
                   Inl e \<Rightarrow> Inl e
                 | Inr coordinates \<Rightarrow>
                     get_barcode_value_from_frame video_data frame_number coordinates)"
    using assms True by (simp add: get_frame_number_from_barcode_def)
  have "get_frame_number_from_barcode video_data d frame_number \<noteq> Inl imprint_not_enabled"
  proof
    assume raised: "get_frame_number_from_barcode video_data d frame_number = Inl imprint_not_enabled"
    show False
    proof (cases "get_barcode_image_coordinates video_info")
      case (Inl e)
      with raised decode coordinates_error [OF Inl] show False
        by (auto simp: imprint_not_enabled_def invalid_literal_def exceeds_limit_def)
    next
      case (Inr coordinates)
      with raised decode have
        "get_barcode_value_from_frame video_data frame_number coordinates = Inl imprint_not_enabled"
        by simp
      from value_from_frame_error [OF this] show False
        by (auto simp: imprint_not_enabled_def frame_number_assertion_def)
    qed
  qed
  with True decode show ?thesis by simp
qed

theorem imprint_flag_must_be_string_true_witness:
  "get_frame_number_from_barcode no_video [(''FrameID imprint enabled'', JStr ''true'')] 0
     = Inl TypeError
   \<and> get_frame_number_from_barcode no_video [(''FrameID imprint enabled'', JStr ''false'')] 0
     = Inl imprint_not_enabled"
proof -
  have on: "get_video_info_data [(''FrameID imprint enabled'', JStr ''true'')]
            = JObj [(''FrameID imprint enabled'', JStr ''true'')]"
    and off: "get_video_info_data [(''FrameID imprint enabled'', JStr ''false'')]
            = JObj [(''FrameID imprint enabled'', JStr ''false'')]"
    by (simp_all add: get_video_info_data_def)
  have coordinates: "get_barcode_image_coordinates [(''FrameID imprint enabled'', JStr ''true'')]
      = Inr [(''xOffset'', 0), (''yOffset'', 0), (''width'', 129), (''height'', 3)]"
    by (simp add: get_barcode_image_coordinates_def default_coordinates_def py_int_def
        int_literal_def strip_def is_space_def digit_val_def upt_conv_Cons)
  have decoded: "get_barcode_value_from_frame no_video 0
      [(''xOffset'', 0), (''yOffset'', 0), (''width'', 129), (''height'', 3)] = Inl TypeError"
    by (simp add: get_barcode_value_from_frame_def get_barcode_image_def coordinate_def no_video_def)
  show ?thesis
    using imprint_flag_must_be_string_true [OF on, of no_video 0, THEN conjunct2, THEN conjunct1]
      imprint_flag_must_be_string_true [OF off, of no_video 0, THEN conjunct1]
    by (simp add: imprint_flag_def coordinates decoded)
qed

text \<open>
  Metadata whose imprint flag is the JSON value \<^verbatim>\<open>true\<close>: the flag is truthy, and the
  function raises all the same.
\<close>

theorem truthy_flag_raises:
  "truthy (imprint_flag flag_is_json_true)
   \<and> get_frame_number_from_barcode no_video flag_is_json_true 0 = Inl imprint_not_enabled"
  by (simp add: flag_is_json_true_def imprint_flag_def get_frame_number_from_barcode_def
      get_video_info_data_def)

end
